theory Spec2Isabelle
  imports Complex_Main "HOL-Library.Word"
begin

section \<open>JavaScript values\<close>

text \<open>
  The values that reach the handlers: parsed JSON (request bodies, the second provider's
  response) and \<^verbatim>\<open>undefined\<close>. An object is an association list of its
  properties, each name once; a JSON number is a finite double, hence a real.
\<close>

datatype jsval =
    JUndefined
  | JNull
  | JBool bool
  | JNum real
  | JStr string
  | JArr "jsval list"
  | JObj "(string \<times> jsval) list"

text \<open>JavaScript's \<^verbatim>\<open>ToBoolean\<close>: what \<^verbatim>\<open>!v\<close>, \<^verbatim>\<open>v || w\<close> and \<^verbatim>\<open>if (v)\<close> test.\<close>

fun truthy :: "jsval \<Rightarrow> bool" where
  "truthy JUndefined = False"
| "truthy JNull = False"
| "truthy (JBool b) = b"
| "truthy (JNum x) = (x \<noteq> 0)"
| "truthy (JStr s) = (s \<noteq> [])"
| "truthy (JArr xs) = True"
| "truthy (JObj kvs) = True"

text \<open>\<^verbatim>\<open>a || b\<close>: the left operand when it is truthy, the right one otherwise.\<close>

definition js_or :: "jsval \<Rightarrow> jsval \<Rightarrow> jsval" where
  "js_or a b = (if truthy a then a else b)"

text \<open>A thrown \<^verbatim>\<open>Error\<close>; only its \<^verbatim>\<open>message\<close> is read by the handlers.\<close>

datatype js_error = Error (message: string)

text \<open>
  A parameter declared with a default, \<^verbatim>\<open>function f(x = d)\<close>: the default is
  taken when the argument is \<^verbatim>\<open>undefined\<close> (or not passed), and only then.
\<close>

definition default_param :: "jsval \<Rightarrow> jsval \<Rightarrow> jsval" where
  "default_param v d = (if v = JUndefined then d else v)"

text \<open>
  Property access \<^verbatim>\<open>v.k\<close>. On \<^verbatim>\<open>undefined\<close> and \<^verbatim>\<open>null\<close> it
  throws a \<^verbatim>\<open>TypeError\<close>; on an object it is the property, or
  \<^verbatim>\<open>undefined\<close> when the object has none of that name. On the other values it is
  \<^verbatim>\<open>undefined\<close> for the names the program reads (\<^verbatim>\<open>urls\<close>,
  \<^verbatim>\<open>get\<close>, \<^verbatim>\<open>id\<close>), none of which is a built-in member of a string,
  a number, a boolean or an array.
\<close>

definition cannot_read :: "string \<Rightarrow> string \<Rightarrow> js_error" where
  "cannot_read what k =
     Error (''Cannot read properties of '' @ what @ '' (reading '' @ [CHR 0x27] @ k @ [CHR 0x27] @ '')'')"

fun js_member :: "jsval \<Rightarrow> string \<Rightarrow> js_error + jsval" where
  "js_member JUndefined k = Inl (cannot_read ''undefined'' k)"
| "js_member JNull k = Inl (cannot_read ''null'' k)"
| "js_member (JObj kvs) k = Inr (case map_of kvs k of None \<Rightarrow> JUndefined | Some v \<Rightarrow> v)"
| "js_member v k = Inr JUndefined"

text \<open>Optional chaining \<^verbatim>\<open>v?.k\<close>: \<^verbatim>\<open>undefined\<close> when \<open>v\<close> is nullish.\<close>

fun js_member_opt :: "jsval \<Rightarrow> string \<Rightarrow> jsval" where
  "js_member_opt (JObj kvs) k = (case map_of kvs k of None \<Rightarrow> JUndefined | Some v \<Rightarrow> v)"
| "js_member_opt v k = JUndefined"

text \<open>A header or environment value in a template literal: \<^verbatim>\<open>`${v}`\<close>.\<close>

fun template :: "string option \<Rightarrow> string" where
  "template None = ''undefined''"
| "template (Some s) = s"

section \<open>Strings\<close>






text \<open>Decimal digits of a natural number: how a template literal prints \<^verbatim>\<open>Date.now()\<close>.\<close>

definition digit_char :: "nat \<Rightarrow> char" where
  "digit_char d = ''0123456789'' ! d"

fun decimal :: "nat \<Rightarrow> string" where
  "decimal n = (if n < 10 then [digit_char n] else decimal (n div 10) @ [digit_char (n mod 10)])"

declare decimal.simps [simp del]

section \<open>\<^verbatim>\<open>path.extname\<close> and \<^verbatim>\<open>path.join\<close> (POSIX)\<close>






text \<open>
  \<^verbatim>\<open>path.join('generated', filename)\<close> for a \<open>filename\<close> without separators or dot
  segments, which is every name the handlers build.
\<close>

definition path_join :: "string \<Rightarrow> string \<Rightarrow> string" where
  "path_join dir name = dir @ ''/'' @ name"

section \<open>The upload filter\<close>

text \<open>
  The fields of multer's file object that the program reads: \<^verbatim>\<open>fileFilter\<close>
  reads the first two, the handlers read \<^verbatim>\<open>req.file.path\<close>, where the
  disk storage put the upload.
\<close>

record multer_file =
  originalname :: string
  mimetype :: string
  path :: string




section \<open>Environment, remote services and effects\<close>

text \<open>
  \<^verbatim>\<open>process.env\<close> maps a variable to a string, or to nothing. A credential counts
  as configured when \<^verbatim>\<open>process.env.X\<close> is truthy: set, and not the empty string.
\<close>

type_synonym process_env = "string \<rightharpoonup> string"

definition env_truthy :: "string option \<Rightarrow> bool" where
  "env_truthy v = (case v of None \<Rightarrow> False | Some s \<Rightarrow> s \<noteq> [])"

type_synonym bytes = "8 word list"

text \<open>One call \<^verbatim>\<open>axios.post(url, data, {headers})\<close>.\<close>

record axios_request =
  url :: string
  data :: jsval
  headers :: "(string \<times> string) list"

text \<open>
  What the program cannot decide is a parameter: how each provider answers a request
  (\<open>Inl\<close>: axios throws; \<open>Inr\<close>: \<^verbatim>\<open>response.data\<close>, a buffer under
  \<^verbatim>\<open>responseType: 'arraybuffer'\<close>, parsed JSON otherwise), whether
  \<^verbatim>\<open>fs.writeFileSync\<close> throws, and what \<^verbatim>\<open>Date.now()\<close> reads.
\<close>

record world =
  huggingface_api :: "axios_request \<Rightarrow> js_error + bytes"
  replicate_api :: "axios_request \<Rightarrow> js_error + jsval"
  writeFileSync :: "string \<Rightarrow> bytes \<Rightarrow> js_error option"
  now :: nat

text \<open>
  What a handler does besides answering, in order: the network calls it makes and the
  files it writes. Console output is left out.
\<close>

datatype effect = AxiosPost axios_request | WriteFile string bytes

fun network_calls :: "effect list \<Rightarrow> axios_request list" where
  "network_calls [] = []"
| "network_calls (AxiosPost r # es) = r # network_calls es"
| "network_calls (WriteFile p b # es) = network_calls es"

fun written_files :: "effect list \<Rightarrow> string list" where
  "written_files [] = []"
| "written_files (AxiosPost r # es) = written_files es"
| "written_files (WriteFile p b # es) = p # written_files es"

definition huggingface_url :: string where
  "huggingface_url =
     ''https://api-inference.huggingface.co/models/'' @ ''stabilityai/stable-diffusion-xl-base-1.0''"

definition replicate_url :: string where
  "replicate_url = ''https://api.replicate.com/v1/predictions''"

text \<open>The calls of a trace that went to the second provider (Service B).\<close>

definition replicate_calls :: "effect list \<Rightarrow> axios_request list" where
  "replicate_calls tr = filter (\<lambda>r. url r = replicate_url) (network_calls tr)"

section \<open>The provider clients\<close>

text \<open>
  Both clients catch every error only to log it and throw it again, so the result is the
  error of the credential check or of the call. The first client's second parameter
  (\<^verbatim>\<open>imageBase64 = null\<close>) is never read and no caller passes it; the second
  client's \<^verbatim>\<open>imageUrl = null\<close> is sent, so its default is part of the request.
\<close>

definition generateWithHuggingFace ::
  "process_env \<Rightarrow> world \<Rightarrow> jsval \<Rightarrow> (js_error + bytes) \<times> effect list" where
  "generateWithHuggingFace env w prompt =
     (let HF_API_KEY = env ''HUGGINGFACE_API_KEY'' in
      if \<not> env_truthy HF_API_KEY then
        (Inl (Error (''Hugging Face API key not configured. '' @
                     ''Get free key at https://huggingface.co/settings/tokens'')), [])
      else
        (let rq = \<lparr>url = huggingface_url,
                    data = JObj [(''inputs'', prompt)],
                    headers = [(''Authorization'', ''Bearer '' @ template HF_API_KEY),
                               (''Content-Type'', ''application/json'')]\<rparr>
         in (huggingface_api w rq, [AxiosPost rq])))"

definition generateWithReplicate ::
  "process_env \<Rightarrow> world \<Rightarrow> jsval \<Rightarrow> jsval \<Rightarrow> (js_error + jsval) \<times> effect list" where
  "generateWithReplicate env w prompt imageUrl =
     (let imageUrl = default_param imageUrl JNull;
          REPLICATE_API_TOKEN = env ''REPLICATE_API_TOKEN'' in
      if \<not> env_truthy REPLICATE_API_TOKEN then
        (Inl (Error (''Replicate API token not configured. '' @
                     ''Get free credits at https://replicate.com'')), [])
      else
        (let rq = \<lparr>url = replicate_url,
                    data = JObj
                      [(''version'',
                        JStr ''c871bb9b046607b680449ecbae55fd8c6d945e0a1948644bf2361b3d021d3ff4''),
                       (''input'', JObj
                          [(''garm_img'', imageUrl),
                           (''human_img'', JStr ''https://example.com/model.jpg''),
                           (''garment_des'', prompt)])],
                    headers = [(''Authorization'', ''Token '' @ template REPLICATE_API_TOKEN),
                               (''Content-Type'', ''application/json'')]\<rparr>
         in (replicate_api w rq, [AxiosPost rq])))"

section \<open>Requests and responses\<close>

text \<open>
  What a handler reads of the request: \<^verbatim>\<open>req.protocol\<close>, \<^verbatim>\<open>req.get('host')\<close>
  (nothing when the request has no Host header), the fields of \<^verbatim>\<open>req.body\<close>, and
  \<^verbatim>\<open>req.file\<close>, which multer sets when a file was uploaded and accepted.
\<close>

record request =
  protocol :: string
  host :: "string option"
  body :: "(string \<times> jsval) list"
  req_file :: "multer_file option"

text \<open>\<^verbatim>\<open>const { k } = req.body\<close>.\<close>

definition body_field :: "request \<Rightarrow> string \<Rightarrow> jsval" where
  "body_field req k = (case map_of (body req) k of None \<Rightarrow> JUndefined | Some v \<Rightarrow> v)"

text \<open>\<^verbatim>\<open>`${req.protocol}://${req.get('host')}`\<close>, the start of every URL a handler builds.\<close>

definition base_url :: "request \<Rightarrow> string" where
  "base_url req = protocol req @ ''://'' @ template (host req)"

text \<open>
  \<^verbatim>\<open>res.status(n).json(v)\<close>; \<^verbatim>\<open>res.json(v)\<close> answers with status 200. A
  property whose value is \<^verbatim>\<open>undefined\<close> is kept here as \<open>JUndefined\<close>; the
  serialised body leaves it out.
\<close>

record response =
  status :: nat
  json :: jsval

definition response_field :: "response \<Rightarrow> string \<Rightarrow> jsval" where
  "response_field r k = js_member_opt (json r) k"

section \<open>The generation handlers\<close>

text \<open>
  Both handlers name and save the image of the first provider with the same four lines:
  the name is \<^verbatim>\<open>`generated-${Date.now()}.png`\<close>, the file goes under
  \<^verbatim>\<open>generated\<close>, the URL is built from the request.
\<close>

definition generated_filename :: "world \<Rightarrow> string" where
  "generated_filename w = ''generated-'' @ decimal (now w) @ ''.png''"

definition save_generated ::
  "world \<Rightarrow> request \<Rightarrow> bytes \<Rightarrow> (js_error + string) \<times> effect list" where
  "save_generated w req imageBuffer =
     (let filename = generated_filename w;
          filepath = path_join ''generated'' filename
      in case writeFileSync w filepath imageBuffer of
           Some error \<Rightarrow> (Inl error, [WriteFile filepath imageBuffer])
         | None \<Rightarrow> (Inr (base_url req @ ''/generated/'' @ filename),
                     [WriteFile filepath imageBuffer]))"

text \<open>The first provider's call followed by the save; the first error ends it.\<close>

definition generate_and_save ::
  "process_env \<Rightarrow> world \<Rightarrow> request \<Rightarrow> jsval \<Rightarrow> (js_error + string) \<times> effect list" where
  "generate_and_save env w req prompt =
     (case generateWithHuggingFace env w prompt of
        (Inl error, tr) \<Rightarrow> (Inl error, tr)
      | (Inr imageBuffer, tr) \<Rightarrow>
          (case save_generated w req imageBuffer of
             (r, tr2) \<Rightarrow> (r, tr @ tr2)))"

subsection \<open>\<^verbatim>\<open>POST /generate-simple\<close>\<close>

definition generate_simple_failed :: "js_error \<Rightarrow> response" where
  "generate_simple_failed error =
     \<lparr>status = 500,
      json = JObj
        [(''error'', JStr ''Failed to generate image''),
         (''details'', JStr (message error)),
         (''setup'', JStr (''Add HUGGINGFACE_API_KEY to .env file. '' @
                          ''Get free key at https://huggingface.co/settings/tokens''))]\<rparr>"

definition generate_simple ::
  "process_env \<Rightarrow> world \<Rightarrow> request \<Rightarrow> response \<times> effect list" where
  "generate_simple env w req =
     (let prompt = body_field req ''prompt'' in
      if \<not> truthy prompt then
        (\<lparr>status = 400, json = JObj [(''error'', JStr ''Prompt is required'')]\<rparr>, [])
      else
        (case generate_and_save env w req prompt of
           (Inl error, tr) \<Rightarrow> (generate_simple_failed error, tr)
         | (Inr imageUrl, tr) \<Rightarrow>
             (\<lparr>status = 200,
               json = JObj
                 [(''message'', JStr ''Image generated successfully''),
                  (''generatedImage'', JStr imageUrl),
                  (''prompt'', prompt),
                  (''service'', JStr ''Hugging Face (FREE)'')]\<rparr>, tr)))"

subsection \<open>\<^verbatim>\<open>POST /generate\<close>\<close>

definition default_prompt :: string where
  "default_prompt =
     ''Professional fashion model wearing elegant dress, studio lighting, '' @
     ''high quality, detailed, commercial photography''"

text \<open>\<^verbatim>\<open>result.urls?.get || result.id\<close>, for the second provider's answer.\<close>

definition replicate_location :: "jsval \<Rightarrow> js_error + jsval" where
  "replicate_location result =
     (case js_member result ''urls'' of
        Inl error \<Rightarrow> Inl error
      | Inr urls \<Rightarrow>
          (let got = js_member_opt urls ''get'' in
           if truthy got then Inr got else js_member result ''id''))"

text \<open>
  The \<^verbatim>\<open>catch\<close> block of the first provider's \<^verbatim>\<open>try\<close>: the fallback to
  the second provider, taken when \<^verbatim>\<open>process.env.REPLICATE_API_TOKEN\<close> is truthy.
  It sets \<^verbatim>\<open>generatedImage\<close> and \<^verbatim>\<open>usedService\<close>, or throws.
\<close>

definition fallback_to_replicate ::
  "process_env \<Rightarrow> world \<Rightarrow> jsval \<Rightarrow> string \<Rightarrow> (js_error + jsval \<times> jsval) \<times> effect list" where
  "fallback_to_replicate env w fullPrompt uploadedImageUrl =
     (if env_truthy (env ''REPLICATE_API_TOKEN'') then
        (case generateWithReplicate env w fullPrompt (JStr uploadedImageUrl) of
           (Inl error, tr) \<Rightarrow> (Inl error, tr)
         | (Inr result, tr) \<Rightarrow>
             (case replicate_location result of
                Inl error \<Rightarrow> (Inl error, tr)
              | Inr generatedImage \<Rightarrow>
                  (Inr (generatedImage, JStr ''Replicate (Free Tier)''), tr)))
      else (Inl (Error ''No AI service configured properly''), []))"

text \<open>
  The provider block of the handler: it leaves \<^verbatim>\<open>generatedImage\<close> and
  \<^verbatim>\<open>usedService\<close> set, or unset (\<open>JUndefined\<close>) when the condition of the
  \<^verbatim>\<open>if\<close> is false and the block is skipped, or throws.
\<close>

definition invoke_providers ::
  "process_env \<Rightarrow> world \<Rightarrow> request \<Rightarrow> jsval \<Rightarrow> jsval \<Rightarrow> string
     \<Rightarrow> (js_error + jsval \<times> jsval) \<times> effect list" where
  "invoke_providers env w req service fullPrompt uploadedImageUrl =
     (if \<not> truthy service \<or> service = JStr ''huggingface'' then
        (case generate_and_save env w req fullPrompt of
           (Inr imageUrl, tr) \<Rightarrow> (Inr (JStr imageUrl, JStr ''Hugging Face (FREE)''), tr)
         | (Inl hfError, tr) \<Rightarrow>
             (case fallback_to_replicate env w fullPrompt uploadedImageUrl of
                (r, tr2) \<Rightarrow> (r, tr @ tr2)))
      else (Inr (JUndefined, JUndefined), []))"

definition generate_failed :: "js_error \<Rightarrow> response" where
  "generate_failed error =
     \<lparr>status = 500,
      json = JObj
        [(''error'', JStr ''Failed to generate product image''),
         (''details'', JStr (message error)),
         (''setup'', JObj
            [(''huggingFace'',
              JStr (''Add HUGGINGFACE_API_KEY to .env - '' @
                    ''Get free at https://huggingface.co/settings/tokens'')),
             (''replicate'',
              JStr (''Add REPLICATE_API_TOKEN to .env - '' @
                    ''Get free credits at https://replicate.com''))])]\<rparr>"

definition generate_completed :: "string \<Rightarrow> jsval \<Rightarrow> jsval \<Rightarrow> jsval \<Rightarrow> response" where
  "generate_completed uploadedImageUrl generatedImage fullPrompt usedService =
     \<lparr>status = 200,
      json = JObj
        [(''message'', JStr ''Image processing completed''),
         (''uploadedImage'', JStr uploadedImageUrl),
         (''generatedImage'', generatedImage),
         (''prompt'', fullPrompt),
         (''service'', usedService),
         (''status'', JStr ''completed'')]\<rparr>"

definition resolve_prompt :: "request \<Rightarrow> jsval" where
  "resolve_prompt req = js_or (body_field req ''prompt'') (JStr default_prompt)"

definition uploaded_url :: "request \<Rightarrow> multer_file \<Rightarrow> string" where
  "uploaded_url req f = base_url req @ ''/'' @ path f"

definition generate ::
  "process_env \<Rightarrow> world \<Rightarrow> request \<Rightarrow> response \<times> effect list" where
  "generate env w req =
     (case req_file req of
        None \<Rightarrow>
          (\<lparr>status = 400, json = JObj [(''error'', JStr ''No image file provided'')]\<rparr>, [])
      | Some f \<Rightarrow>
          (let service = body_field req ''service'';
               uploadedImageUrl = uploaded_url req f;
               fullPrompt = resolve_prompt req
           in case invoke_providers env w req service fullPrompt uploadedImageUrl of
                (Inl error, tr) \<Rightarrow> (generate_failed error, tr)
              | (Inr (generatedImage, usedService), tr) \<Rightarrow>
                  (generate_completed uploadedImageUrl generatedImage fullPrompt usedService,
                   tr)))"

text \<open>The two routes that generate an image, as the router dispatches them.\<close>

datatype route = PostGenerateSimple | PostGenerate

fun app_post :: "route \<Rightarrow> process_env \<Rightarrow> world \<Rightarrow> request \<Rightarrow> response \<times> effect list" where
  "app_post PostGenerateSimple env w req = generate_simple env w req"
| "app_post PostGenerate env w req = generate env w req"

text \<open>
  A provider's answer is a descriptor when it is not \<^verbatim>\<open>null\<close> or
  \<^verbatim>\<open>undefined\<close>; reading \<^verbatim>\<open>result.urls\<close> of those two throws, so the
  handler treats them as a malformed payload.
\<close>

fun descriptor :: "jsval \<Rightarrow> bool" where
  "descriptor JUndefined = False"
| "descriptor JNull = False"
| "descriptor v = True"

section \<open>Example inputs\<close>

text \<open>
  A world in which both providers answer and the disk accepts every write, one in which
  the first provider is down, one in which moreover the second provider answers
  \<^verbatim>\<open>null\<close>, one a millisecond later, environments with and without
  each credential, an accepted upload, and requests around them.
\<close>

definition png_bytes :: bytes where
  "png_bytes = [0x89, 0x50, 0x4E, 0x47]"

definition prediction :: jsval where
  "prediction =
     JObj [(''id'', JStr ''p1''),
           (''urls'', JObj [(''get'', JStr ''https://api.replicate.com/v1/predictions/p1'')])]"

definition world_up :: world where
  "world_up =
     \<lparr>huggingface_api = (\<lambda>rq. Inr png_bytes),
      replicate_api = (\<lambda>rq. Inr prediction),
      writeFileSync = (\<lambda>p b. None),
      now = 1700000000000\<rparr>"

definition world_hf_down :: world where
  "world_hf_down =
     \<lparr>huggingface_api = (\<lambda>rq. Inl (Error ''Request failed with status code 503'')),
      replicate_api = (\<lambda>rq. Inr prediction),
      writeFileSync = (\<lambda>p b. None),
      now = 1700000000000\<rparr>"

definition world_null_payload :: world where
  "world_null_payload =
     \<lparr>huggingface_api = (\<lambda>rq. Inl (Error ''Request failed with status code 503'')),
      replicate_api = (\<lambda>rq. Inr JNull),
      writeFileSync = (\<lambda>p b. None),
      now = 1700000000000\<rparr>"

definition world_later :: world where
  "world_later =
     \<lparr>huggingface_api = (\<lambda>rq. Inr png_bytes),
      replicate_api = (\<lambda>rq. Inr prediction),
      writeFileSync = (\<lambda>p b. None),
      now = 1700000000001\<rparr>"

definition env_both :: process_env where
  "env_both = [''HUGGINGFACE_API_KEY'' \<mapsto> ''hf_key'', ''REPLICATE_API_TOKEN'' \<mapsto> ''r8_token'']"

definition env_huggingface_only :: process_env where
  "env_huggingface_only = [''HUGGINGFACE_API_KEY'' \<mapsto> ''hf_key'']"

definition env_replicate_only :: process_env where
  "env_replicate_only = [''REPLICATE_API_TOKEN'' \<mapsto> ''r8_token'']"

definition env_none :: process_env where
  "env_none = Map.empty"

definition dress :: multer_file where
  "dress = \<lparr>originalname = ''dress.png'', mimetype = ''image/png'',
            path = ''uploads/image-1700000000000-42.png''\<rparr>"



definition upload_request :: "(string \<times> jsval) list \<Rightarrow> request" where
  "upload_request kvs =
     \<lparr>protocol = ''http'', host = Some ''localhost:3000'', body = kvs, req_file = Some dress\<rparr>"

definition json_request :: "(string \<times> jsval) list \<Rightarrow> request" where
  "json_request kvs =
     \<lparr>protocol = ''http'', host = Some ''localhost:3000'', body = kvs, req_file = None\<rparr>"

section \<open>Traces of the building blocks\<close>

lemma default_param_simps [simp]:
  "default_param JUndefined d = d"
  "v \<noteq> JUndefined \<Longrightarrow> default_param v d = v"
  by (simp_all add: default_param_def)

lemma urls_differ: "huggingface_url \<noteq> replicate_url"
  by (simp add: huggingface_url_def replicate_url_def)

lemma network_calls_append: "network_calls (a @ b) = network_calls a @ network_calls b"
  by (induction a rule: network_calls.induct) simp_all

lemma written_files_append: "written_files (a @ b) = written_files a @ written_files b"
  by (induction a rule: written_files.induct) simp_all

lemma replicate_calls_append: "replicate_calls (a @ b) = replicate_calls a @ replicate_calls b"
  by (simp add: replicate_calls_def network_calls_append)

lemma replicate_calls_hf: "replicate_calls (snd (generateWithHuggingFace env w p)) = []"
  using urls_differ by (simp add: generateWithHuggingFace_def Let_def replicate_calls_def)

lemma replicate_calls_save: "replicate_calls (snd (save_generated w req b)) = []"
  by (simp add: save_generated_def Let_def replicate_calls_def split: option.splits)

lemma generate_and_save_Inl:
  "fst (generateWithHuggingFace env w p) = Inl e \<Longrightarrow>
   generate_and_save env w req p = (Inl e, snd (generateWithHuggingFace env w p))"
  by (cases "generateWithHuggingFace env w p") (simp add: generate_and_save_def)

lemma generate_and_save_Inr:
  "fst (generateWithHuggingFace env w p) = Inr b \<Longrightarrow>
   generate_and_save env w req p =
     (fst (save_generated w req b),
      snd (generateWithHuggingFace env w p) @ snd (save_generated w req b))"
  by (cases "generateWithHuggingFace env w p") (simp add: generate_and_save_def split: prod.splits)

lemma replicate_calls_generate_and_save:
  "replicate_calls (snd (generate_and_save env w req p)) = []"
proof (cases "fst (generateWithHuggingFace env w p)")
  case (Inl e)
  then show ?thesis by (simp add: generate_and_save_Inl replicate_calls_hf)
next
  case (Inr b)
  then show ?thesis
    by (simp add: generate_and_save_Inr replicate_calls_append replicate_calls_hf
        replicate_calls_save)
qed

lemma save_generated_ok:
  "writeFileSync w (path_join ''generated'' (generated_filename w)) b = None \<Longrightarrow>
   fst (save_generated w req b) = Inr (base_url req @ ''/generated/'' @ generated_filename w)"
  by (simp add: save_generated_def Let_def)

lemma hf_unconfigured:
  "\<not> env_truthy (env ''HUGGINGFACE_API_KEY'') \<Longrightarrow>
   generateWithHuggingFace env w p =
     (Inl (Error (''Hugging Face API key not configured. '' @
                  ''Get free key at https://huggingface.co/settings/tokens'')), [])"
  by (simp add: generateWithHuggingFace_def Let_def)

lemma upload_request_simps:
  "req_file (upload_request kvs) = Some dress"
  "body_field (upload_request kvs) k = (case map_of kvs k of None \<Rightarrow> JUndefined | Some v \<Rightarrow> v)"
  "uploaded_url (upload_request kvs) dress =
     ''http://localhost:3000/uploads/image-1700000000000-42.png''"
  by (simp_all add: upload_request_def body_field_def uploaded_url_def base_url_def dress_def)

lemma resolve_prompt_simps:
  "truthy (body_field req ''prompt'') \<Longrightarrow> resolve_prompt req = body_field req ''prompt''"
  "\<not> truthy (body_field req ''prompt'') \<Longrightarrow> resolve_prompt req = JStr default_prompt"
  by (simp_all add: resolve_prompt_def js_or_def)

section \<open>\<^verbatim>\<open>POST /generate-simple\<close> uses the first provider only\<close>

lemma generate_simple_replicate_calls: "replicate_calls (snd (generate_simple env w req)) = []"
proof (cases "generate_and_save env w req (body_field req ''prompt'')")
  case (Pair r tr)
  with replicate_calls_generate_and_save [of env w req "body_field req ''prompt''"]
  have "replicate_calls tr = []" by simp
  with Pair show ?thesis
    by (cases r) (simp_all add: generate_simple_def Let_def replicate_calls_def)
qed

lemma network_calls_save: "network_calls (snd (save_generated w req b)) = []"
  by (simp add: save_generated_def Let_def split: option.splits)

lemma network_calls_generate_and_save:
  "network_calls (snd (generate_and_save env w req p)) =
   network_calls (snd (generateWithHuggingFace env w p))"
proof (cases "fst (generateWithHuggingFace env w p)")
  case (Inl e)
  then show ?thesis by (simp add: generate_and_save_Inl)
next
  case (Inr b)
  then show ?thesis
    by (simp add: generate_and_save_Inr network_calls_append network_calls_save)
qed

lemma generate_simple_network_calls:
  "truthy (body_field req ''prompt'') \<Longrightarrow>
   network_calls (snd (generate_simple env w req)) =
   network_calls (snd (generateWithHuggingFace env w (body_field req ''prompt'')))"
proof (cases "generate_and_save env w req (body_field req ''prompt'')")
  case (Pair r tr)
  assume p: "truthy (body_field req ''prompt'')"
  from Pair network_calls_generate_and_save [of env w req "body_field req ''prompt''"]
  have "network_calls tr =
        network_calls (snd (generateWithHuggingFace env w (body_field req ''prompt'')))"
    by simp
  with Pair p show ?thesis by (cases r) (simp_all add: generate_simple_def Let_def)
qed

lemma huggingface_call:
  "network_calls (snd (generateWithHuggingFace env w p)) =
     (if env_truthy (env ''HUGGINGFACE_API_KEY'')
      then [\<lparr>url = huggingface_url, data = JObj [(''inputs'', p)],
             headers = [(''Authorization'', ''Bearer '' @ template (env ''HUGGINGFACE_API_KEY'')),
                        (''Content-Type'', ''application/json'')]\<rparr>]
      else [])"
  by (simp add: generateWithHuggingFace_def Let_def)

lemma save_generated_failed:
  "writeFileSync w (path_join ''generated'' (generated_filename w)) b = Some e \<Longrightarrow>
   fst (save_generated w req b) = Inl e"
  by (simp add: save_generated_def Let_def)

text \<open>
  Claim C6. For every request to \<^verbatim>\<open>POST /generate-simple\<close>, whatever the
  environment holds:
  \<^item> no call goes to the second provider;
  \<^item> without a prompt the answer is status 400 and nothing is done;
  \<^item> with a prompt, the network calls made are those of the first provider's client:
    with its key configured, exactly one call, to the first provider's URL, with the
    prompt as \<^verbatim>\<open>inputs\<close> and the key as bearer token; without the key, none;
  \<^item> when that client fails with an error \<open>e\<close>, or returns an image whose write fails
    with \<open>e\<close>, the answer is status 500 with the body \<^verbatim>\<open>{error: 'Failed to
    generate image', details: e.message, setup: 'Add HUGGINGFACE_API_KEY ...'}\<close>;
  \<^item> when the client returns an image and the write succeeds, the answer is status 200
    with \<^verbatim>\<open>generatedImage\<close> the URL of the written file, the prompt as given, and
    the first provider's label as the service.
\<close>

theorem generate_simple_service_a_only:
  "replicate_calls (snd (generate_simple env w req)) = [] \<and>
   (\<not> truthy (body_field req ''prompt'') \<longrightarrow>
      generate_simple env w req =
        (\<lparr>status = 400, json = JObj [(''error'', JStr ''Prompt is required'')]\<rparr>, [])) \<and>
   (truthy (body_field req ''prompt'') \<longrightarrow>
      network_calls (snd (generate_simple env w req)) =
        (if env_truthy (env ''HUGGINGFACE_API_KEY'')
         then [\<lparr>url = huggingface_url,
                data = JObj [(''inputs'', body_field req ''prompt'')],
                headers =
                  [(''Authorization'', ''Bearer '' @ template (env ''HUGGINGFACE_API_KEY'')),
                   (''Content-Type'', ''application/json'')]\<rparr>]
         else [])) \<and>
   (truthy (body_field req ''prompt'') \<longrightarrow>
    (fst (generateWithHuggingFace env w (body_field req ''prompt'')) = Inl e \<or>
     (\<exists>imageBuffer.
        fst (generateWithHuggingFace env w (body_field req ''prompt'')) = Inr imageBuffer \<and>
        writeFileSync w (path_join ''generated'' (generated_filename w)) imageBuffer =
          Some e)) \<longrightarrow>
      fst (generate_simple env w req) =
        \<lparr>status = 500,
         json = JObj
           [(''error'', JStr ''Failed to generate image''),
            (''details'', JStr (message e)),
            (''setup'',
             JStr (''Add HUGGINGFACE_API_KEY to .env file. '' @
                   ''Get free key at https://huggingface.co/settings/tokens''))]\<rparr>) \<and>
   (truthy (body_field req ''prompt'') \<longrightarrow>
    fst (generateWithHuggingFace env w (body_field req ''prompt'')) = Inr imageBuffer \<longrightarrow>
    writeFileSync w (path_join ''generated'' (generated_filename w)) imageBuffer = None \<longrightarrow>
      fst (generate_simple env w req) =
        \<lparr>status = 200,
         json = JObj
           [(''message'', JStr ''Image generated successfully''),
            (''generatedImage'', JStr (base_url req @ ''/generated/'' @ generated_filename w)),
            (''prompt'', body_field req ''prompt''),
            (''service'', JStr ''Hugging Face (FREE)'')]\<rparr>)"
proof (intro conjI impI)
  show "replicate_calls (snd (generate_simple env w req)) = []"
    by (rule generate_simple_replicate_calls)
next
  assume "\<not> truthy (body_field req ''prompt'')"
  then show "generate_simple env w req =
        (\<lparr>status = 400, json = JObj [(''error'', JStr ''Prompt is required'')]\<rparr>, [])"
    by (simp add: generate_simple_def)
next
  assume "truthy (body_field req ''prompt'')"
  then show "network_calls (snd (generate_simple env w req)) =
        (if env_truthy (env ''HUGGINGFACE_API_KEY'')
         then [\<lparr>url = huggingface_url,
                data = JObj [(''inputs'', body_field req ''prompt'')],
                headers =
                  [(''Authorization'', ''Bearer '' @ template (env ''HUGGINGFACE_API_KEY'')),
                   (''Content-Type'', ''application/json'')]\<rparr>]
         else [])"
    by (simp only: generate_simple_network_calls huggingface_call)
next
  assume p: "truthy (body_field req ''prompt'')"
    and "fst (generateWithHuggingFace env w (body_field req ''prompt'')) = Inl e \<or>
     (\<exists>imageBuffer.
        fst (generateWithHuggingFace env w (body_field req ''prompt'')) = Inr imageBuffer \<and>
        writeFileSync w (path_join ''generated'' (generated_filename w)) imageBuffer =
          Some e)"
  then have "fst (generate_and_save env w req (body_field req ''prompt'')) = Inl e"
    by (auto simp add: generate_and_save_Inl generate_and_save_Inr save_generated_failed)
  then have "fst (generate_simple env w req) = generate_simple_failed e"
    using p
    by (cases "generate_and_save env w req (body_field req ''prompt'')")
      (simp add: generate_simple_def)
  then show "fst (generate_simple env w req) =
        \<lparr>status = 500,
         json = JObj
           [(''error'', JStr ''Failed to generate image''),
            (''details'', JStr (message e)),
            (''setup'',
             JStr (''Add HUGGINGFACE_API_KEY to .env file. '' @
                   ''Get free key at https://huggingface.co/settings/tokens''))]\<rparr>"
    by (simp add: generate_simple_failed_def)
next
  assume "truthy (body_field req ''prompt'')"
    and "fst (generateWithHuggingFace env w (body_field req ''prompt'')) = Inr imageBuffer"
    and "writeFileSync w (path_join ''generated'' (generated_filename w)) imageBuffer = None"
  then show "fst (generate_simple env w req) =
        \<lparr>status = 200,
         json = JObj
           [(''message'', JStr ''Image generated successfully''),
            (''generatedImage'', JStr (base_url req @ ''/generated/'' @ generated_filename w)),
            (''prompt'', body_field req ''prompt''),
            (''service'', JStr ''Hugging Face (FREE)'')]\<rparr>"
    by (simp add: generate_simple_def Let_def generate_and_save_Inr save_generated_ok)
qed

text \<open>
  The theorem at two requests with the prompt "red sneaker". With only the second
  provider's token configured the first provider's client fails on its credential check:
  no network call at all, and the 500 body with that error's message as details. With
  both credentials and both providers up: one call, to the first provider, and the 200
  body with the URL of the written file.
\<close>

theorem generate_simple_service_a_only_witness:
  "network_calls
     (snd (generate_simple env_replicate_only world_up
        (json_request [(''prompt'', JStr ''red sneaker'')]))) = [] \<and>
   fst (generate_simple env_replicate_only world_up
        (json_request [(''prompt'', JStr ''red sneaker'')])) =
     \<lparr>status = 500,
      json = JObj
        [(''error'', JStr ''Failed to generate image''),
         (''details'',
          JStr (''Hugging Face API key not configured. '' @
                ''Get free key at https://huggingface.co/settings/tokens'')),
         (''setup'',
          JStr (''Add HUGGINGFACE_API_KEY to .env file. '' @
                ''Get free key at https://huggingface.co/settings/tokens''))]\<rparr> \<and>
   network_calls
     (snd (generate_simple env_both world_up
        (json_request [(''prompt'', JStr ''red sneaker'')]))) =
     [\<lparr>url = huggingface_url,
       data = JObj [(''inputs'', JStr ''red sneaker'')],
       headers = [(''Authorization'', ''Bearer hf_key''),
                  (''Content-Type'', ''application/json'')]\<rparr>] \<and>
   replicate_calls
     (snd (generate_simple env_both world_up
        (json_request [(''prompt'', JStr ''red sneaker'')]))) = [] \<and>
   fst (generate_simple env_both world_up
        (json_request [(''prompt'', JStr ''red sneaker'')])) =
     \<lparr>status = 200,
      json = JObj
        [(''message'', JStr ''Image generated successfully''),
         (''generatedImage'',
          JStr ''http://localhost:3000/generated/generated-1700000000000.png''),
         (''prompt'', JStr ''red sneaker''),
         (''service'', JStr ''Hugging Face (FREE)'')]\<rparr>"
proof -
  let ?req = "json_request [(''prompt'', JStr ''red sneaker'')]"
  let ?e = "Error (''Hugging Face API key not configured. '' @
                   ''Get free key at https://huggingface.co/settings/tokens'')"
  have pf: "body_field ?req ''prompt'' = JStr ''red sneaker''"
    by (simp add: json_request_def body_field_def)
  then have p: "truthy (body_field ?req ''prompt'')" by simp
  have k1: "\<not> env_truthy (env_replicate_only ''HUGGINGFACE_API_KEY'')"
    by (simp add: env_replicate_only_def env_truthy_def)
  have k2: "env_truthy (env_both ''HUGGINGFACE_API_KEY'')"
    and k2': "template (env_both ''HUGGINGFACE_API_KEY'') = ''hf_key''"
    by (simp_all add: env_both_def env_truthy_def)
  have down: "fst (generateWithHuggingFace env_replicate_only world_up
                (body_field ?req ''prompt'')) = Inl ?e"
    using k1 by (simp add: hf_unconfigured)
  have up: "fst (generateWithHuggingFace env_both world_up (body_field ?req ''prompt'')) =
              Inr png_bytes"
    using k2 by (simp add: generateWithHuggingFace_def Let_def world_up_def)
  have wr: "writeFileSync world_up (path_join ''generated'' (generated_filename world_up))
              png_bytes = None"
    by (simp add: world_up_def)
  have name: "generated_filename world_up = ''generated-1700000000000.png''"
    by (simp add: generated_filename_def world_up_def decimal.simps digit_char_def)
  have base: "base_url ?req = ''http://localhost:3000''"
    by (simp add: base_url_def json_request_def)
  note one = generate_simple_service_a_only [of env_replicate_only world_up ?req ?e png_bytes]
  note two = generate_simple_service_a_only [of env_both world_up ?req ?e png_bytes]
  from one p k1 have a: "network_calls (snd (generate_simple env_replicate_only world_up ?req)) = []"
    by presburger
  from one p down have b: "fst (generate_simple env_replicate_only world_up ?req) =
        \<lparr>status = 500,
         json = JObj
           [(''error'', JStr ''Failed to generate image''),
            (''details'', JStr (message ?e)),
            (''setup'',
             JStr (''Add HUGGINGFACE_API_KEY to .env file. '' @
                   ''Get free key at https://huggingface.co/settings/tokens''))]\<rparr>"
    by blast
  from two p k2 have c: "network_calls (snd (generate_simple env_both world_up ?req)) =
        [\<lparr>url = huggingface_url,
          data = JObj [(''inputs'', body_field ?req ''prompt'')],
          headers = [(''Authorization'', ''Bearer '' @ template (env_both ''HUGGINGFACE_API_KEY'')),
                     (''Content-Type'', ''application/json'')]\<rparr>]"
    by presburger
  from two have d: "replicate_calls (snd (generate_simple env_both world_up ?req)) = []"
    by blast
  from two p up wr have e: "fst (generate_simple env_both world_up ?req) =
        \<lparr>status = 200,
         json = JObj
           [(''message'', JStr ''Image generated successfully''),
            (''generatedImage'',
             JStr (base_url ?req @ ''/generated/'' @ generated_filename world_up)),
            (''prompt'', body_field ?req ''prompt''),
            (''service'', JStr ''Hugging Face (FREE)'')]\<rparr>"
    by blast
  show ?thesis
    unfolding a b c d e by (simp add: pf k2' name base)
qed

section \<open>\<^verbatim>\<open>POST /generate\<close>: what the handler does with the provider block\<close>

lemma generate_fst:
  "req_file req = Some f \<Longrightarrow>
   fst (generate env w req) =
     (case fst (invoke_providers env w req (body_field req ''service'') (resolve_prompt req)
                  (uploaded_url req f)) of
        Inl error \<Rightarrow> generate_failed error
      | Inr (generatedImage, usedService) \<Rightarrow>
          generate_completed (uploaded_url req f) generatedImage (resolve_prompt req) usedService)"
  by (simp add: generate_def Let_def split: prod.splits sum.splits)

lemma generate_snd:
  "req_file req = Some f \<Longrightarrow>
   snd (generate env w req) =
     snd (invoke_providers env w req (body_field req ''service'') (resolve_prompt req)
            (uploaded_url req f))"
  by (simp add: generate_def Let_def split: prod.splits sum.splits)

lemma generate_no_file:
  "req_file req = None \<Longrightarrow>
   generate env w req =
     (\<lparr>status = 400, json = JObj [(''error'', JStr ''No image file provided'')]\<rparr>, [])"
  by (simp add: generate_def)

lemma invoke_providers_skipped:
  "truthy service \<Longrightarrow> service \<noteq> JStr ''huggingface'' \<Longrightarrow>
   invoke_providers env w req service p u = (Inr (JUndefined, JUndefined), [])"
  by (simp add: invoke_providers_def)

lemma invoke_providers_hf_failed:
  "\<not> truthy service \<or> service = JStr ''huggingface'' \<Longrightarrow>
   fst (generateWithHuggingFace env w p) = Inl e \<Longrightarrow>
   invoke_providers env w req service p u =
     (fst (fallback_to_replicate env w p u),
      snd (generateWithHuggingFace env w p) @ snd (fallback_to_replicate env w p u))"
  by (auto simp add: invoke_providers_def generate_and_save_Inl split: prod.splits)

lemma fallback_without_token:
  "\<not> env_truthy (env ''REPLICATE_API_TOKEN'') \<Longrightarrow>
   fallback_to_replicate env w p u = (Inl (Error ''No AI service configured properly''), [])"
  by (simp add: fallback_to_replicate_def)

lemma fallback_snd:
  "env_truthy (env ''REPLICATE_API_TOKEN'') \<Longrightarrow>
   snd (fallback_to_replicate env w p u) = snd (generateWithReplicate env w p (JStr u))"
  by (simp add: fallback_to_replicate_def split: prod.splits sum.splits)

lemma replicate_location_descriptor:
  "(\<exists>g. replicate_location d = Inr g) = descriptor d"
  by (cases d) (simp_all add: replicate_location_def Let_def)

lemma fallback_succeeds_iff:
  "env_truthy (env ''REPLICATE_API_TOKEN'') \<Longrightarrow>
   (\<exists>g s. fst (fallback_to_replicate env w p u) = Inr (g, s)) =
   (\<exists>d. fst (generateWithReplicate env w p (JStr u)) = Inr d \<and> descriptor d)"
proof (cases "generateWithReplicate env w p (JStr u)")
  case (Pair r tr)
  assume t: "env_truthy (env ''REPLICATE_API_TOKEN'')"
  show ?thesis
  proof (cases r)
    case (Inl e)
    with Pair t show ?thesis by (simp add: fallback_to_replicate_def)
  next
    case (Inr d)
    with Pair t replicate_location_descriptor [of d] show ?thesis
      by (cases "replicate_location d") (auto simp add: fallback_to_replicate_def)
  qed
qed

lemma generateWithReplicate_calls:
  "env_truthy (env ''REPLICATE_API_TOKEN'') \<Longrightarrow>
   \<exists>rq. snd (generateWithReplicate env w p u) = [AxiosPost rq] \<and> url rq = replicate_url"
  by (simp add: generateWithReplicate_def Let_def)

lemma generateWithReplicate_no_token:
  "\<not> env_truthy (env ''REPLICATE_API_TOKEN'') \<Longrightarrow> snd (generateWithReplicate env w p u) = []"
  by (simp add: generateWithReplicate_def Let_def)

lemma replicate_calls_replicate:
  "replicate_calls (snd (generateWithReplicate env w p u)) =
   network_calls (snd (generateWithReplicate env w p u))"
  by (simp add: generateWithReplicate_def Let_def replicate_calls_def)

lemma generate_after_hf_failure:
  assumes f: "req_file req = Some f"
    and s: "\<not> truthy (body_field req ''service'') \<or> body_field req ''service'' = JStr ''huggingface''"
    and e: "fst (generateWithHuggingFace env w (resolve_prompt req)) = Inl e"
  shows "fst (generate env w req) =
           (case fst (fallback_to_replicate env w (resolve_prompt req) (uploaded_url req f)) of
              Inl error \<Rightarrow> generate_failed error
            | Inr (generatedImage, usedService) \<Rightarrow>
                generate_completed (uploaded_url req f) generatedImage (resolve_prompt req)
                  usedService)"
    and "replicate_calls (snd (generate env w req)) =
           replicate_calls (snd (fallback_to_replicate env w (resolve_prompt req)
             (uploaded_url req f)))"
  using invoke_providers_hf_failed [OF s e, of req "uploaded_url req f"]
  by (simp_all add: generate_fst [OF f] generate_snd [OF f] replicate_calls_append
      replicate_calls_hf)

lemma fallback_calls:
  "replicate_calls (snd (fallback_to_replicate env w p u)) =
     (if env_truthy (env ''REPLICATE_API_TOKEN'')
      then network_calls (snd (generateWithReplicate env w p (JStr u))) else [])"
  by (simp add: fallback_snd fallback_without_token replicate_calls_replicate)
    (simp add: replicate_calls_def)

lemma fallback_status:
  "status (case fst (fallback_to_replicate env w p u) of
              Inl error \<Rightarrow> generate_failed error
            | Inr (generatedImage, usedService) \<Rightarrow>
                generate_completed u' generatedImage p' usedService) =
   (if (\<exists>g s. fst (fallback_to_replicate env w p u) = Inr (g, s)) then 200 else 500)"
  by (cases "fst (fallback_to_replicate env w p u)")
    (auto simp add: generate_failed_def generate_completed_def)

lemma invoke_providers_replicate_calls:
  "replicate_calls (snd (invoke_providers env w req service p u)) =
     (if (\<not> truthy service \<or> service = JStr ''huggingface'') \<and>
         (\<exists>e. fst (generate_and_save env w req p) = Inl e)
      then replicate_calls (snd (fallback_to_replicate env w p u)) else [])"
proof (cases "generate_and_save env w req p")
  case (Pair r tr)
  with replicate_calls_generate_and_save [of env w req p] have tr: "replicate_calls tr = []"
    by simp
  show ?thesis
  proof (cases r)
    case (Inl e)
    with Pair tr show ?thesis
      by (cases "fallback_to_replicate env w p u")
        (simp add: invoke_providers_def replicate_calls_append, simp add: replicate_calls_def)
  next
    case (Inr b)
    with Pair tr show ?thesis
      by (simp add: invoke_providers_def) (simp add: replicate_calls_def)
  qed
qed

lemma generate_replicate_calls_need_token:
  "replicate_calls (snd (generate env w req)) \<noteq> [] \<Longrightarrow> env_truthy (env ''REPLICATE_API_TOKEN'')"
proof (cases "req_file req")
  case None
  assume "replicate_calls (snd (generate env w req)) \<noteq> []"
  with None show ?thesis by (simp add: generate_no_file replicate_calls_def)
next
  case (Some f)
  assume "replicate_calls (snd (generate env w req)) \<noteq> []"
  then show ?thesis
    by (simp add: generate_snd [OF Some] invoke_providers_replicate_calls fallback_calls
        split: if_splits)
qed

section \<open>The fallback to the second provider\<close>

text \<open>
  Claim C5, as amended. Take a request to \<^verbatim>\<open>POST /generate\<close> with an uploaded file and no
  \<^verbatim>\<open>service\<close> (absent, or any falsy value), for which the first provider's
  client fails. If \<^verbatim>\<open>REPLICATE_API_TOKEN\<close> is configured, the handler makes
  exactly one call to the second provider, the one its client builds from the resolved
  prompt and the URL of the upload, and the request succeeds (status 200) exactly when
  that client's call succeeds with a payload other than \<^verbatim>\<open>null\<close> and
  \<^verbatim>\<open>undefined\<close>; otherwise the status is 500. If the token is not configured, no
  call to the second provider is made and the answer is the 500 body with the details
  "No AI service configured properly" and the setup text of both providers. For every
  request whatever, a call to the second provider in the trace means the token is
  configured.
\<close>

theorem default_fallback_needs_replicate_token:
  "(req_file req = Some f \<longrightarrow> \<not> truthy (body_field req ''service'') \<longrightarrow>
    fst (generateWithHuggingFace env w (resolve_prompt req)) = Inl e \<longrightarrow>
      (env_truthy (env ''REPLICATE_API_TOKEN'') \<longrightarrow>
         replicate_calls (snd (generate env w req)) =
           network_calls (snd (generateWithReplicate env w (resolve_prompt req)
             (JStr (uploaded_url req f)))) \<and>
         length (replicate_calls (snd (generate env w req))) = 1 \<and>
         (status (fst (generate env w req)) = 200) =
           (\<exists>d. fst (generateWithReplicate env w (resolve_prompt req)
                  (JStr (uploaded_url req f))) = Inr d \<and> descriptor d) \<and>
         (status (fst (generate env w req)) = 200 \<or> status (fst (generate env w req)) = 500)) \<and>
      (\<not> env_truthy (env ''REPLICATE_API_TOKEN'') \<longrightarrow>
         replicate_calls (snd (generate env w req)) = [] \<and>
         fst (generate env w req) =
           \<lparr>status = 500,
             json = JObj
               [(''error'', JStr ''Failed to generate product image''),
                (''details'', JStr ''No AI service configured properly''),
                (''setup'', JObj
                   [(''huggingFace'',
                     JStr (''Add HUGGINGFACE_API_KEY to .env - '' @
                           ''Get free at https://huggingface.co/settings/tokens'')),
                    (''replicate'',
                     JStr (''Add REPLICATE_API_TOKEN to .env - '' @
                           ''Get free credits at https://replicate.com''))])]\<rparr> \<and>
         status (fst (generate env w req)) = 500)) \<and>
   (replicate_calls (snd (generate env w req)) \<noteq> [] \<longrightarrow>
      env_truthy (env ''REPLICATE_API_TOKEN''))"
proof (intro conjI impI)
  assume n: "replicate_calls (snd (generate env w req)) \<noteq> []"
  then show "env_truthy (env ''REPLICATE_API_TOKEN'')"
    by (rule generate_replicate_calls_need_token)
next
  assume f: "req_file req = Some f"
    and s: "\<not> truthy (body_field req ''service'')"
    and e: "fst (generateWithHuggingFace env w (resolve_prompt req)) = Inl e"
  from s have s': "\<not> truthy (body_field req ''service'') \<or>
                   body_field req ''service'' = JStr ''huggingface''" ..
  note after = generate_after_hf_failure [OF f s' e]
  {
    assume t: "env_truthy (env ''REPLICATE_API_TOKEN'')"
    from t show calls: "replicate_calls (snd (generate env w req)) =
        network_calls (snd (generateWithReplicate env w (resolve_prompt req)
          (JStr (uploaded_url req f))))"
      by (simp add: after(2) fallback_calls)
    from t generateWithReplicate_calls [of env w "resolve_prompt req" "JStr (uploaded_url req f)"]
    show "length (replicate_calls (snd (generate env w req))) = 1"
      unfolding calls by auto
    from t show "(status (fst (generate env w req)) = 200) =
        (\<exists>d. fst (generateWithReplicate env w (resolve_prompt req)
               (JStr (uploaded_url req f))) = Inr d \<and> descriptor d)"
      by (simp add: after(1) fallback_status fallback_succeeds_iff)
    show "status (fst (generate env w req)) = 200 \<or> status (fst (generate env w req)) = 500"
      by (simp add: after(1) fallback_status)
  }
  {
    assume t: "\<not> env_truthy (env ''REPLICATE_API_TOKEN'')"
    from t show "replicate_calls (snd (generate env w req)) = []"
      by (simp add: after(2) fallback_calls)
    from t show r: "fst (generate env w req) =
           \<lparr>status = 500,
             json = JObj
               [(''error'', JStr ''Failed to generate product image''),
                (''details'', JStr ''No AI service configured properly''),
                (''setup'', JObj
                   [(''huggingFace'',
                     JStr (''Add HUGGINGFACE_API_KEY to .env - '' @
                           ''Get free at https://huggingface.co/settings/tokens'')),
                    (''replicate'',
                     JStr (''Add REPLICATE_API_TOKEN to .env - '' @
                           ''Get free credits at https://replicate.com''))])]\<rparr>"
      by (simp add: after(1) fallback_without_token generate_failed_def)
    show "status (fst (generate env w req)) = 500"
      unfolding r by simp
  }
qed

text \<open>
  The theorem at a request with no fields, with only the second provider's token
  configured (the first client fails on its credential check, one call is made, the
  answer is 200), and with no credential at all (no call, 500).
\<close>

theorem default_fallback_needs_replicate_token_witness:
  "length (replicate_calls (snd (generate env_replicate_only world_up (upload_request [])))) = 1 \<and>
   status (fst (generate env_replicate_only world_up (upload_request []))) = 200 \<and>
   replicate_calls (snd (generate env_none world_up (upload_request []))) = [] \<and>
   status (fst (generate env_none world_up (upload_request []))) = 500"
proof -
  let ?req = "upload_request []"
  let ?e = "Error (''Hugging Face API key not configured. '' @
                   ''Get free key at https://huggingface.co/settings/tokens'')"
  have f: "req_file ?req = Some dress" and s: "\<not> truthy (body_field ?req ''service'')"
    by (simp_all add: upload_request_simps)
  have e1: "fst (generateWithHuggingFace env_replicate_only world_up (resolve_prompt ?req)) = Inl ?e"
    by (simp add: hf_unconfigured env_replicate_only_def env_truthy_def)
  have e2: "fst (generateWithHuggingFace env_none world_up (resolve_prompt ?req)) = Inl ?e"
    by (simp add: hf_unconfigured env_none_def env_truthy_def)
  have t1: "env_truthy (env_replicate_only ''REPLICATE_API_TOKEN'')"
    by (simp add: env_replicate_only_def env_truthy_def)
  have t2: "\<not> env_truthy (env_none ''REPLICATE_API_TOKEN'')"
    by (simp add: env_none_def env_truthy_def)
  have ok: "\<exists>d. fst (generateWithReplicate env_replicate_only world_up (resolve_prompt ?req)
                  (JStr (uploaded_url ?req dress))) = Inr d \<and> descriptor d"
    using t1 by (simp add: generateWithReplicate_def Let_def world_up_def prediction_def)
  from default_fallback_needs_replicate_token [of ?req dress env_replicate_only world_up ?e]
    f s e1 t1 ok
  have a: "length (replicate_calls (snd (generate env_replicate_only world_up ?req))) = 1"
    and b: "status (fst (generate env_replicate_only world_up ?req)) = 200"
    by blast+
  from default_fallback_needs_replicate_token [of ?req dress env_none world_up ?e] f s e2 t2
  have c: "replicate_calls (snd (generate env_none world_up ?req)) = []"
    and d: "status (fst (generate env_none world_up ?req)) = 500"
    by blast+
  from a b c d show ?thesis by simp
qed

text \<open>
  Claim C5 as stated fails: "succeeds iff Service B's call succeeds" does not hold when
  the second provider answers with the JSON value \<^verbatim>\<open>null\<close>. The request has no
  service, both credentials are configured, the first provider is down, the second
  client's call succeeds and returns \<^verbatim>\<open>null\<close>; one call was made to the second
  provider, and the answer is status 500 with the \<^verbatim>\<open>TypeError\<close> of
  \<^verbatim>\<open>result.urls\<close> as details.
\<close>

theorem fallback_null_payload_fails:
  "body_field (upload_request []) ''service'' = JUndefined \<and>
   fst (generateWithHuggingFace env_both world_null_payload
          (resolve_prompt (upload_request []))) =
     Inl (Error ''Request failed with status code 503'') \<and>
   env_truthy (env_both ''REPLICATE_API_TOKEN'') \<and>
   fst (generateWithReplicate env_both world_null_payload (resolve_prompt (upload_request []))
          (JStr (uploaded_url (upload_request []) dress))) = Inr JNull \<and>
   length (replicate_calls (snd (generate env_both world_null_payload (upload_request [])))) = 1 \<and>
   status (fst (generate env_both world_null_payload (upload_request []))) = 500 \<and>
   response_field (fst (generate env_both world_null_payload (upload_request []))) ''details'' =
     JStr (message (cannot_read ''null'' ''urls''))"
proof -
  let ?req = "upload_request []"
  have f: "req_file ?req = Some dress"
    and s: "body_field ?req ''service'' = JUndefined"
    by (simp_all add: upload_request_simps)
  have e: "fst (generateWithHuggingFace env_both world_null_payload (resolve_prompt ?req)) =
             Inl (Error ''Request failed with status code 503'')"
    by (simp add: generateWithHuggingFace_def Let_def env_both_def env_truthy_def
        world_null_payload_def)
  from s have s': "\<not> truthy (body_field ?req ''service'') \<or>
                   body_field ?req ''service'' = JStr ''huggingface''" by simp
  note after = generate_after_hf_failure [OF f s' e]
  have t: "env_truthy (env_both ''REPLICATE_API_TOKEN'')"
    by (simp add: env_both_def env_truthy_def)
  have call: "fst (generateWithReplicate env_both world_null_payload (resolve_prompt ?req)
                (JStr (uploaded_url ?req dress))) = Inr JNull"
    using t by (simp add: generateWithReplicate_def Let_def world_null_payload_def)
  have fb: "fst (fallback_to_replicate env_both world_null_payload (resolve_prompt ?req)
              (uploaded_url ?req dress)) = Inl (cannot_read ''null'' ''urls'')"
    using call t
    by (cases "generateWithReplicate env_both world_null_payload (resolve_prompt ?req)
                 (JStr (uploaded_url ?req dress))")
      (simp add: fallback_to_replicate_def replicate_location_def)
  have calls: "length (replicate_calls (snd (generate env_both world_null_payload ?req))) = 1"
    using t generateWithReplicate_calls [of env_both world_null_payload "resolve_prompt ?req"
        "JStr (uploaded_url ?req dress)"]
    by (auto simp add: after(2) fallback_calls)
  have st: "status (fst (generate env_both world_null_payload ?req)) = 500"
    and dt: "response_field (fst (generate env_both world_null_payload ?req)) ''details'' =
               JStr (message (cannot_read ''null'' ''urls''))"
    by (simp_all add: after(1) fb generate_failed_def response_field_def)
  from s e t call calls st dt show ?thesis by simp
qed

section \<open>An explicit choice of the first provider\<close>

text \<open>
  Claim C1, as amended. Take a request to \<^verbatim>\<open>POST /generate\<close> with an uploaded
  file and \<^verbatim>\<open>service\<close> set to \<^verbatim>\<open>'huggingface'\<close>, for which the first
  provider's client fails. The handler calls the second provider exactly when
  \<^verbatim>\<open>REPLICATE_API_TOKEN\<close> is configured, as it does for a request without a
  service; then the request succeeds (status 200) exactly when the second client's call
  succeeds with a payload other than \<^verbatim>\<open>null\<close> and \<^verbatim>\<open>undefined\<close>.
  Only without the token is no fallback made, and the request ends in the failure
  response: status 500, details "No AI service configured properly", the setup text of
  both providers.
\<close>

theorem explicit_huggingface_fallback_follows_token:
  assumes f: "req_file req = Some f"
    and s: "body_field req ''service'' = JStr ''huggingface''"
    and e: "fst (generateWithHuggingFace env w (resolve_prompt req)) = Inl e"
  shows "(replicate_calls (snd (generate env w req)) \<noteq> []) =
           env_truthy (env ''REPLICATE_API_TOKEN'') \<and>
         (env_truthy (env ''REPLICATE_API_TOKEN'') \<longrightarrow>
            (status (fst (generate env w req)) = 200) =
              (\<exists>d. fst (generateWithReplicate env w (resolve_prompt req)
                     (JStr (uploaded_url req f))) = Inr d \<and> descriptor d)) \<and>
         (\<not> env_truthy (env ''REPLICATE_API_TOKEN'') \<longrightarrow>
            replicate_calls (snd (generate env w req)) = [] \<and>
            fst (generate env w req) =
           \<lparr>status = 500,
             json = JObj
               [(''error'', JStr ''Failed to generate product image''),
                (''details'', JStr ''No AI service configured properly''),
                (''setup'', JObj
                   [(''huggingFace'',
                     JStr (''Add HUGGINGFACE_API_KEY to .env - '' @
                           ''Get free at https://huggingface.co/settings/tokens'')),
                    (''replicate'',
                     JStr (''Add REPLICATE_API_TOKEN to .env - '' @
                           ''Get free credits at https://replicate.com''))])]\<rparr>)"
proof -
  from s have s': "\<not> truthy (body_field req ''service'') \<or>
                   body_field req ''service'' = JStr ''huggingface''" ..
  note after = generate_after_hf_failure [OF f s' e]
  have "(replicate_calls (snd (generate env w req)) \<noteq> []) =
           env_truthy (env ''REPLICATE_API_TOKEN'')"
    using generateWithReplicate_calls [of env w "resolve_prompt req" "JStr (uploaded_url req f)"]
    by (auto simp add: after(2) fallback_calls)
  moreover have "env_truthy (env ''REPLICATE_API_TOKEN'') \<longrightarrow>
            (status (fst (generate env w req)) = 200) =
              (\<exists>d. fst (generateWithReplicate env w (resolve_prompt req)
                     (JStr (uploaded_url req f))) = Inr d \<and> descriptor d)"
    by (simp add: after(1) fallback_status fallback_succeeds_iff)
  moreover have "\<not> env_truthy (env ''REPLICATE_API_TOKEN'') \<longrightarrow>
            replicate_calls (snd (generate env w req)) = [] \<and>
            fst (generate env w req) =
           \<lparr>status = 500,
             json = JObj
               [(''error'', JStr ''Failed to generate product image''),
                (''details'', JStr ''No AI service configured properly''),
                (''setup'', JObj
                   [(''huggingFace'',
                     JStr (''Add HUGGINGFACE_API_KEY to .env - '' @
                           ''Get free at https://huggingface.co/settings/tokens'')),
                    (''replicate'',
                     JStr (''Add REPLICATE_API_TOKEN to .env - '' @
                           ''Get free credits at https://replicate.com''))])]\<rparr>"
    by (simp add: after fallback_without_token generate_failed_def)
      (simp add: replicate_calls_def)
  ultimately show ?thesis by blast
qed

text \<open>
  The theorem at a request that names \<^verbatim>\<open>huggingface\<close>, with only the first
  provider's key configured and that provider down: no fallback, the failure response.
\<close>

theorem explicit_huggingface_fallback_follows_token_witness:
  "replicate_calls
     (snd (generate env_huggingface_only world_hf_down
        (upload_request [(''service'', JStr ''huggingface'')]))) = [] \<and>
   fst (generate env_huggingface_only world_hf_down
        (upload_request [(''service'', JStr ''huggingface'')])) =
           \<lparr>status = 500,
             json = JObj
               [(''error'', JStr ''Failed to generate product image''),
                (''details'', JStr ''No AI service configured properly''),
                (''setup'', JObj
                   [(''huggingFace'',
                     JStr (''Add HUGGINGFACE_API_KEY to .env - '' @
                           ''Get free at https://huggingface.co/settings/tokens'')),
                    (''replicate'',
                     JStr (''Add REPLICATE_API_TOKEN to .env - '' @
                           ''Get free credits at https://replicate.com''))])]\<rparr>"
proof -
  let ?req = "upload_request [(''service'', JStr ''huggingface'')]"
  have f: "req_file ?req = Some dress"
    and s: "body_field ?req ''service'' = JStr ''huggingface''"
    by (simp_all add: upload_request_simps)
  have e: "fst (generateWithHuggingFace env_huggingface_only world_hf_down (resolve_prompt ?req)) =
             Inl (Error ''Request failed with status code 503'')"
    by (simp add: generateWithHuggingFace_def Let_def env_huggingface_only_def env_truthy_def
        world_hf_down_def)
  have t: "\<not> env_truthy (env_huggingface_only ''REPLICATE_API_TOKEN'')"
    by (simp add: env_huggingface_only_def env_truthy_def)
  from explicit_huggingface_fallback_follows_token [OF f s e] t show ?thesis by simp
qed

text \<open>
  Claim C1 as stated fails: the same request with both credentials configured and the
  first provider down is answered by the second provider. The service is explicitly
  \<^verbatim>\<open>huggingface\<close>, the first client fails, one call goes to the second provider
  and the answer is status 200 with the second provider's label.
\<close>

theorem explicit_huggingface_falls_back:
  "body_field (upload_request [(''service'', JStr ''huggingface'')]) ''service'' =
     JStr ''huggingface'' \<and>
   fst (generateWithHuggingFace env_both world_hf_down
          (resolve_prompt (upload_request [(''service'', JStr ''huggingface'')]))) =
     Inl (Error ''Request failed with status code 503'') \<and>
   length (replicate_calls
     (snd (generate env_both world_hf_down
        (upload_request [(''service'', JStr ''huggingface'')])))) = 1 \<and>
   status (fst (generate env_both world_hf_down
        (upload_request [(''service'', JStr ''huggingface'')]))) = 200 \<and>
   response_field (fst (generate env_both world_hf_down
        (upload_request [(''service'', JStr ''huggingface'')]))) ''service'' =
     JStr ''Replicate (Free Tier)''"
proof -
  let ?req = "upload_request [(''service'', JStr ''huggingface'')]"
  have f: "req_file ?req = Some dress"
    and s: "body_field ?req ''service'' = JStr ''huggingface''"
    by (simp_all add: upload_request_simps)
  have e: "fst (generateWithHuggingFace env_both world_hf_down (resolve_prompt ?req)) =
             Inl (Error ''Request failed with status code 503'')"
    by (simp add: generateWithHuggingFace_def Let_def env_both_def env_truthy_def
        world_hf_down_def)
  from s have s': "\<not> truthy (body_field ?req ''service'') \<or>
                   body_field ?req ''service'' = JStr ''huggingface''" ..
  note after = generate_after_hf_failure [OF f s' e]
  have t: "env_truthy (env_both ''REPLICATE_API_TOKEN'')"
    by (simp add: env_both_def env_truthy_def)
  have fb: "fst (fallback_to_replicate env_both world_hf_down (resolve_prompt ?req)
              (uploaded_url ?req dress)) =
            Inr (JStr ''https://api.replicate.com/v1/predictions/p1'', JStr ''Replicate (Free Tier)'')"
    by (simp add: fallback_to_replicate_def generateWithReplicate_def Let_def t
        world_hf_down_def prediction_def replicate_location_def)
  have calls: "length (replicate_calls (snd (generate env_both world_hf_down ?req))) = 1"
    using t generateWithReplicate_calls [of env_both world_hf_down "resolve_prompt ?req"
        "JStr (uploaded_url ?req dress)"]
    by (auto simp add: after(2) fallback_calls)
  have st: "status (fst (generate env_both world_hf_down ?req)) = 200"
    and sv: "response_field (fst (generate env_both world_hf_down ?req)) ''service'' =
               JStr ''Replicate (Free Tier)''"
    by (simp_all add: after(1) fb generate_completed_def response_field_def)
  from s e calls st sv show ?thesis by simp
qed

section \<open>What the second provider is sent\<close>

lemma generateWithReplicate_input:
  "r \<in> set (network_calls (snd (generateWithReplicate env w prompt imageUrl))) \<Longrightarrow>
   js_member_opt (data r) ''input'' =
     JObj [(''garm_img'', default_param imageUrl JNull),
           (''human_img'', JStr ''https://example.com/model.jpg''),
           (''garment_des'', prompt)]"
  by (simp add: generateWithReplicate_def Let_def split: if_splits)

lemma generate_replicate_calls:
  "req_file req = Some f \<Longrightarrow>
   set (replicate_calls (snd (generate env w req))) \<subseteq>
   set (network_calls (snd (generateWithReplicate env w (resolve_prompt req)
          (JStr (uploaded_url req f)))))"
  by (auto simp add: generate_snd invoke_providers_replicate_calls fallback_calls)

text \<open>
  Claim C10. Every call the second provider's client makes carries, as its
  \<^verbatim>\<open>input\<close>, the client's image URL argument as \<^verbatim>\<open>garm_img\<close>
  (\<^verbatim>\<open>null\<close> when the argument is \<^verbatim>\<open>undefined\<close>, by the parameter's
  default), the fixed URL \<^verbatim>\<open>https://example.com/model.jpg\<close> as
  \<^verbatim>\<open>human_img\<close> and the client's prompt argument as \<^verbatim>\<open>garment_des\<close>.
  With the token configured the client makes exactly one call, to the second provider's
  URL. Every call to the second provider that \<^verbatim>\<open>POST /generate\<close> makes carries
  the URL of the upload as \<^verbatim>\<open>garm_img\<close>, the placeholder as
  \<^verbatim>\<open>human_img\<close> and the resolved prompt as \<^verbatim>\<open>garment_des\<close>.
\<close>

theorem replicate_input_fixed_model_image:
  "(\<forall>r \<in> set (network_calls (snd (generateWithReplicate env w prompt imageUrl))).
      js_member_opt (data r) ''input'' =
        JObj [(''garm_img'', if imageUrl = JUndefined then JNull else imageUrl),
              (''human_img'', JStr ''https://example.com/model.jpg''),
              (''garment_des'', prompt)]) \<and>
   (env_truthy (env ''REPLICATE_API_TOKEN'') \<longrightarrow>
      (\<exists>r. network_calls (snd (generateWithReplicate env w prompt imageUrl)) = [r] \<and>
           url r = replicate_url)) \<and>
   (\<forall>r \<in> set (replicate_calls (snd (generate env w req))).
      \<forall>f. req_file req = Some f \<longrightarrow>
        js_member_opt (data r) ''input'' =
          JObj [(''garm_img'', JStr (uploaded_url req f)),
                (''human_img'', JStr ''https://example.com/model.jpg''),
                (''garment_des'', resolve_prompt req)])"
proof (intro conjI ballI allI impI)
  fix r
  assume "r \<in> set (network_calls (snd (generateWithReplicate env w prompt imageUrl)))"
  then show "js_member_opt (data r) ''input'' =
        JObj [(''garm_img'', if imageUrl = JUndefined then JNull else imageUrl),
              (''human_img'', JStr ''https://example.com/model.jpg''),
              (''garment_des'', prompt)]"
    by (simp add: generateWithReplicate_input default_param_def)
next
  assume "env_truthy (env ''REPLICATE_API_TOKEN'')"
  then show "\<exists>r. network_calls (snd (generateWithReplicate env w prompt imageUrl)) = [r] \<and>
                 url r = replicate_url"
    using generateWithReplicate_calls [of env w prompt imageUrl] by auto
next
  fix r f
  assume r: "r \<in> set (replicate_calls (snd (generate env w req)))"
    and f: "req_file req = Some f"
  from generate_replicate_calls [OF f, of env w] r
  have "r \<in> set (network_calls (snd (generateWithReplicate env w (resolve_prompt req)
          (JStr (uploaded_url req f)))))" by blast
  then show "js_member_opt (data r) ''input'' =
          JObj [(''garm_img'', JStr (uploaded_url req f)),
                (''human_img'', JStr ''https://example.com/model.jpg''),
                (''garment_des'', resolve_prompt req)]"
    by (simp add: generateWithReplicate_input)
qed

lemma example_fallback_call:
  "replicate_calls (snd (generate env_replicate_only world_up
      (upload_request [(''prompt'', JStr ''silk dress'')]))) =
   [\<lparr>url = replicate_url,
     data = JObj
       [(''version'', JStr ''c871bb9b046607b680449ecbae55fd8c6d945e0a1948644bf2361b3d021d3ff4''),
        (''input'', JObj
           [(''garm_img'', JStr ''http://localhost:3000/uploads/image-1700000000000-42.png''),
            (''human_img'', JStr ''https://example.com/model.jpg''),
            (''garment_des'', JStr ''silk dress'')])],
     headers = [(''Authorization'', ''Token r8_token''),
                (''Content-Type'', ''application/json'')]\<rparr>]"
proof -
  let ?req = "upload_request [(''prompt'', JStr ''silk dress'')]"
  have f: "req_file ?req = Some dress" by (simp add: upload_request_simps)
  have s: "\<not> truthy (body_field ?req ''service'') \<or>
           body_field ?req ''service'' = JStr ''huggingface''"
    by (simp add: upload_request_simps)
  have e: "fst (generateWithHuggingFace env_replicate_only world_up (resolve_prompt ?req)) =
     Inl (Error (''Hugging Face API key not configured. '' @
                  ''Get free key at https://huggingface.co/settings/tokens''))"
    by (simp add: hf_unconfigured env_replicate_only_def env_truthy_def)
  have p: "resolve_prompt ?req = JStr ''silk dress''"
    by (simp add: resolve_prompt_simps upload_request_simps)
  show ?thesis
    unfolding generate_after_hf_failure(2) [OF f s e] fallback_calls p
    by (simp add: upload_request_simps generateWithReplicate_def Let_def
        env_replicate_only_def env_truthy_def)
qed

text \<open>
  The theorem at a request with the prompt "silk dress" and only the second provider's
  token configured: one call is made, and its input is the upload's URL, the placeholder
  and that prompt. And at the client called without an image URL: the call it makes
  carries \<^verbatim>\<open>null\<close> as \<^verbatim>\<open>garm_img\<close>.
\<close>

theorem replicate_input_fixed_model_image_witness:
  "length (replicate_calls (snd (generate env_replicate_only world_up
      (upload_request [(''prompt'', JStr ''silk dress'')])))) = 1 \<and>
   js_member_opt (data (hd (replicate_calls (snd (generate env_replicate_only world_up
      (upload_request [(''prompt'', JStr ''silk dress'')])))))) ''input'' =
     JObj [(''garm_img'', JStr ''http://localhost:3000/uploads/image-1700000000000-42.png''),
           (''human_img'', JStr ''https://example.com/model.jpg''),
           (''garment_des'', JStr ''silk dress'')] \<and>
   js_member_opt (data (hd (network_calls (snd (generateWithReplicate env_replicate_only
      world_up (JStr ''silk dress'') JUndefined))))) ''input'' =
     JObj [(''garm_img'', JNull),
           (''human_img'', JStr ''https://example.com/model.jpg''),
           (''garment_des'', JStr ''silk dress'')]"
proof -
  let ?req = "upload_request [(''prompt'', JStr ''silk dress'')]"
  let ?calls = "replicate_calls (snd (generate env_replicate_only world_up ?req))"
  let ?direct = "network_calls (snd (generateWithReplicate env_replicate_only world_up
                   (JStr ''silk dress'') JUndefined))"
  have len: "length ?calls = 1" by (simp add: example_fallback_call)
  then have mem: "hd ?calls \<in> set ?calls" by (cases ?calls) simp_all
  have f: "req_file ?req = Some dress" by (simp add: upload_request_simps)
  have p: "resolve_prompt ?req = JStr ''silk dress''"
    by (simp add: resolve_prompt_simps upload_request_simps)
  have t: "env_truthy (env_replicate_only ''REPLICATE_API_TOKEN'')"
    by (simp add: env_replicate_only_def env_truthy_def)
  note inst = replicate_input_fixed_model_image [of env_replicate_only world_up
      "JStr ''silk dress''" JUndefined ?req]
  from inst mem f
  have a: "js_member_opt (data (hd ?calls)) ''input'' =
          JObj [(''garm_img'', JStr (uploaded_url ?req dress)),
                (''human_img'', JStr ''https://example.com/model.jpg''),
                (''garment_des'', resolve_prompt ?req)]"
    by blast
  from inst t obtain r where "?direct = [r]" by blast
  then have "hd ?direct \<in> set ?direct" by simp
  with inst have "js_member_opt (data (hd ?direct)) ''input'' =
          JObj [(''garm_img'', if JUndefined = JUndefined then JNull else JUndefined),
                (''human_img'', JStr ''https://example.com/model.jpg''),
                (''garment_des'', JStr ''silk dress'')]"
    by blast
  then have b: "js_member_opt (data (hd ?direct)) ''input'' =
          JObj [(''garm_img'', JNull),
                (''human_img'', JStr ''https://example.com/model.jpg''),
                (''garment_des'', JStr ''silk dress'')]"
    by simp
  from len a b show ?thesis by (simp add: p upload_request_simps)
qed

section \<open>The default prompt\<close>

lemma resolve_prompt_not_empty: "resolve_prompt req \<noteq> JStr ''''"
proof (cases "truthy (body_field req ''prompt'')")
  case True
  then have "body_field req ''prompt'' \<noteq> JStr ''''" by auto
  with True show ?thesis by (simp add: resolve_prompt_simps)
next
  case False
  then show ?thesis by (simp add: resolve_prompt_simps default_prompt_def)
qed

lemma base_url_cong:
  "protocol req' = protocol req \<Longrightarrow> host req' = host req \<Longrightarrow> base_url req' = base_url req"
  by (simp add: base_url_def)

lemma invoke_providers_cong:
  assumes "base_url req' = base_url req"
  shows "invoke_providers env w req' s p u = invoke_providers env w req s p u"
proof -
  have "save_generated w req' b = save_generated w req b" for b
    using assms by (simp add: save_generated_def Let_def split: option.splits)
  then have "generate_and_save env w req' p = generate_and_save env w req p"
    by (simp add: generate_and_save_def split: prod.splits sum.splits)
  then show ?thesis by (simp add: invoke_providers_def split: prod.splits sum.splits)
qed

lemma generate_depends_on:
  assumes "protocol req' = protocol req" and "host req' = host req"
    and "req_file req' = req_file req"
    and "body_field req' ''service'' = body_field req ''service''"
    and "resolve_prompt req' = resolve_prompt req"
  shows "generate env w req' = generate env w req"
proof (cases "req_file req")
  case None
  with assms(3) show ?thesis by (simp add: generate_no_file)
next
  case (Some f)
  from assms(1,2) have b: "base_url req' = base_url req" by (rule base_url_cong)
  then have u: "uploaded_url req' f = uploaded_url req f" by (simp add: uploaded_url_def)
  from Some assms(3) have f': "req_file req' = Some f" by simp
  show ?thesis
    by (simp add: generate_def Some f' Let_def u assms(4,5) invoke_providers_cong [OF b])
qed

lemma generate_prompt_field:
  "response_field (fst (generate env w req)) ''prompt'' = JUndefined \<or>
   response_field (fst (generate env w req)) ''prompt'' = resolve_prompt req"
proof (cases "req_file req")
  case None
  then show ?thesis by (simp add: generate_no_file response_field_def)
next
  case (Some f)
  show ?thesis
    by (cases "fst (invoke_providers env w req (body_field req ''service'') (resolve_prompt req)
                  (uploaded_url req f))")
      (auto simp add: generate_fst [OF Some] response_field_def generate_failed_def
        generate_completed_def)
qed

lemma generate_prompt_when_ok:
  "status (fst (generate env w req)) = 200 \<Longrightarrow>
   response_field (fst (generate env w req)) ''prompt'' = resolve_prompt req"
proof (cases "req_file req")
  case None
  assume "status (fst (generate env w req)) = 200"
  with None show ?thesis by (simp add: generate_no_file)
next
  case (Some f)
  assume "status (fst (generate env w req)) = 200"
  then show ?thesis
    by (cases "fst (invoke_providers env w req (body_field req ''service'') (resolve_prompt req)
                  (uploaded_url req f))")
      (auto simp add: generate_fst [OF Some] response_field_def generate_failed_def
        generate_completed_def)
qed

lemma fallback_network_calls:
  "set (network_calls (snd (fallback_to_replicate env w p u))) \<subseteq>
   set (network_calls (snd (generateWithReplicate env w p (JStr u))))"
  by (cases "env_truthy (env ''REPLICATE_API_TOKEN'')")
    (simp_all add: fallback_snd fallback_without_token)

lemma invoke_providers_network_calls:
  "set (network_calls (snd (invoke_providers env w req s p u))) \<subseteq>
   set (network_calls (snd (generateWithHuggingFace env w p))) \<union>
   set (network_calls (snd (generateWithReplicate env w p (JStr u))))"
proof (cases "generate_and_save env w req p")
  case (Pair r tr)
  with network_calls_generate_and_save [of env w req p]
  have tr: "network_calls tr = network_calls (snd (generateWithHuggingFace env w p))" by simp
  show ?thesis
  proof (cases r)
    case (Inl e)
    with Pair tr fallback_network_calls [of env w p u] show ?thesis
      by (cases "fallback_to_replicate env w p u")
        (auto simp add: invoke_providers_def network_calls_append)
  next
    case (Inr b)
    with Pair tr show ?thesis by (auto simp add: invoke_providers_def)
  qed
qed

lemma invoke_providers_first_calls:
  assumes "\<not> truthy s \<or> s = JStr ''huggingface''"
  shows "\<exists>rest. network_calls (snd (invoke_providers env w req s p u)) =
           network_calls (snd (generateWithHuggingFace env w p)) @ rest"
proof (cases "generate_and_save env w req p")
  case (Pair r tr)
  with network_calls_generate_and_save [of env w req p]
  have tr: "network_calls tr = network_calls (snd (generateWithHuggingFace env w p))" by simp
  show ?thesis
  proof (cases r)
    case (Inl e)
    with Pair tr assms show ?thesis
      by (cases "fallback_to_replicate env w p u")
        (simp add: invoke_providers_def network_calls_append)
  next
    case (Inr b)
    with Pair tr assms show ?thesis by (simp add: invoke_providers_def)
  qed
qed

lemma generate_calls_carry_prompt:
  assumes "r \<in> set (network_calls (snd (generate env w req)))"
  shows "(url r = huggingface_url \<and> data r = JObj [(''inputs'', resolve_prompt req)]) \<or>
         (url r = replicate_url \<and>
          (\<exists>g. js_member_opt (data r) ''input'' =
             JObj [(''garm_img'', g),
                   (''human_img'', JStr ''https://example.com/model.jpg''),
                   (''garment_des'', resolve_prompt req)]))"
proof (cases "req_file req")
  case None
  with assms show ?thesis by (simp add: generate_no_file)
next
  case (Some f)
  with assms invoke_providers_network_calls [of env w req "body_field req ''service''"
      "resolve_prompt req" "uploaded_url req f"]
  have "r \<in> set (network_calls (snd (generateWithHuggingFace env w (resolve_prompt req)))) \<or>
        r \<in> set (network_calls (snd (generateWithReplicate env w (resolve_prompt req)
                 (JStr (uploaded_url req f)))))"
    by (auto simp add: generate_snd)
  then show ?thesis
  proof
    assume "r \<in> set (network_calls (snd (generateWithHuggingFace env w (resolve_prompt req))))"
    then show ?thesis by (simp add: huggingface_call split: if_splits)
  next
    assume r: "r \<in> set (network_calls (snd (generateWithReplicate env w (resolve_prompt req)
                 (JStr (uploaded_url req f)))))"
    then have "url r = replicate_url"
      by (simp add: generateWithReplicate_def Let_def split: if_splits)
    with generateWithReplicate_input [OF r] show ?thesis by simp
  qed
qed

lemma generate_first_provider_succeeds:
  assumes f: "req_file req = Some f"
    and s: "\<not> truthy (body_field req ''service'') \<or> body_field req ''service'' = JStr ''huggingface''"
    and b: "fst (generateWithHuggingFace env w (resolve_prompt req)) = Inr b"
    and wr: "writeFileSync w (path_join ''generated'' (generated_filename w)) b = None"
  shows "fst (generate env w req) =
           generate_completed (uploaded_url req f)
             (JStr (base_url req @ ''/generated/'' @ generated_filename w))
             (resolve_prompt req) (JStr ''Hugging Face (FREE)'')"
  using s
  by (simp add: generate_fst [OF f] invoke_providers_def generate_and_save_Inr [OF b]
      save_generated_ok [OF wr])

text \<open>
  Claim C9. In \<^verbatim>\<open>POST /generate\<close>, when the \<^verbatim>\<open>prompt\<close> field is the empty
  string:
  \<^item> the resolved prompt is the fixed default;
  \<^item> the handler answers and acts as it does for a request that differs only in having
    no prompt field;
  \<^item> every answer with status 200 has the default as its \<^verbatim>\<open>prompt\<close>;
  \<^item> every network call made carries the default: as \<^verbatim>\<open>inputs\<close> to the first
    provider, as \<^verbatim>\<open>garment_des\<close> to the second;
  \<^item> with an upload, a service that is falsy or \<^verbatim>\<open>'huggingface'\<close> and the first
    provider's key configured, the first network call is the first provider's, with the
    default as \<^verbatim>\<open>inputs\<close>; when that provider returns an image and the write
    succeeds, the answer is the 200 body with the default as \<^verbatim>\<open>prompt\<close>.
  For every request, the \<^verbatim>\<open>prompt\<close> of the response is never the empty string.
\<close>

theorem empty_prompt_gets_default:
  "(body_field req ''prompt'' = JStr '''' \<longrightarrow>
      resolve_prompt req = JStr default_prompt \<and>
      (\<forall>req'. body_field req' ''prompt'' = JUndefined \<longrightarrow>
         protocol req' = protocol req \<longrightarrow> host req' = host req \<longrightarrow>
         req_file req' = req_file req \<longrightarrow>
         body_field req' ''service'' = body_field req ''service'' \<longrightarrow>
           generate env w req = generate env w req') \<and>
      (status (fst (generate env w req)) = 200 \<longrightarrow>
         response_field (fst (generate env w req)) ''prompt'' = JStr default_prompt) \<and>
      (\<forall>r \<in> set (network_calls (snd (generate env w req))).
         (url r = huggingface_url \<and> data r = JObj [(''inputs'', JStr default_prompt)]) \<or>
         (url r = replicate_url \<and>
          (\<exists>g. js_member_opt (data r) ''input'' =
             JObj [(''garm_img'', g),
                   (''human_img'', JStr ''https://example.com/model.jpg''),
                   (''garment_des'', JStr default_prompt)]))) \<and>
      (req_file req = Some f \<longrightarrow>
       (\<not> truthy (body_field req ''service'') \<or>
        body_field req ''service'' = JStr ''huggingface'') \<longrightarrow>
         (env_truthy (env ''HUGGINGFACE_API_KEY'') \<longrightarrow>
            (\<exists>rest. network_calls (snd (generate env w req)) =
               \<lparr>url = huggingface_url,
                data = JObj [(''inputs'', JStr default_prompt)],
                headers =
                  [(''Authorization'', ''Bearer '' @ template (env ''HUGGINGFACE_API_KEY'')),
                   (''Content-Type'', ''application/json'')]\<rparr> # rest)) \<and>
         (fst (generateWithHuggingFace env w (JStr default_prompt)) = Inr b \<longrightarrow>
          writeFileSync w (path_join ''generated'' (generated_filename w)) b = None \<longrightarrow>
            fst (generate env w req) =
              \<lparr>status = 200,
               json = JObj
                 [(''message'', JStr ''Image processing completed''),
                  (''uploadedImage'', JStr (uploaded_url req f)),
                  (''generatedImage'',
                   JStr (base_url req @ ''/generated/'' @ generated_filename w)),
                  (''prompt'', JStr default_prompt),
                  (''service'', JStr ''Hugging Face (FREE)''),
                  (''status'', JStr ''completed'')]\<rparr>))) \<and>
   response_field (fst (generate env w req)) ''prompt'' \<noteq> JStr ''''"
proof (intro conjI impI allI ballI)
  assume "body_field req ''prompt'' = JStr ''''"
  then show "resolve_prompt req = JStr default_prompt"
    by (simp add: resolve_prompt_simps)
next
  fix req'
  assume "body_field req ''prompt'' = JStr ''''" and "body_field req' ''prompt'' = JUndefined"
  then have "resolve_prompt req = resolve_prompt req'"
    by (simp add: resolve_prompt_simps)
  moreover assume "protocol req' = protocol req" and "host req' = host req"
    and "req_file req' = req_file req"
    and "body_field req' ''service'' = body_field req ''service''"
  ultimately show "generate env w req = generate env w req'"
    by (intro generate_depends_on) simp_all
next
  assume "body_field req ''prompt'' = JStr ''''"
  then have p: "resolve_prompt req = JStr default_prompt" by (simp add: resolve_prompt_simps)
  assume "status (fst (generate env w req)) = 200"
  then show "response_field (fst (generate env w req)) ''prompt'' = JStr default_prompt"
    by (simp add: generate_prompt_when_ok p)
next
  fix r
  assume "body_field req ''prompt'' = JStr ''''"
  then have p: "resolve_prompt req = JStr default_prompt" by (simp add: resolve_prompt_simps)
  assume "r \<in> set (network_calls (snd (generate env w req)))"
  from generate_calls_carry_prompt [OF this]
  show "(url r = huggingface_url \<and> data r = JObj [(''inputs'', JStr default_prompt)]) \<or>
        (url r = replicate_url \<and>
          (\<exists>g. js_member_opt (data r) ''input'' =
             JObj [(''garm_img'', g),
                   (''human_img'', JStr ''https://example.com/model.jpg''),
                   (''garment_des'', JStr default_prompt)]))"
    unfolding p .
next
  assume "body_field req ''prompt'' = JStr ''''"
  then have p: "resolve_prompt req = JStr default_prompt" by (simp add: resolve_prompt_simps)
  assume f: "req_file req = Some f"
    and s: "\<not> truthy (body_field req ''service'') \<or>
            body_field req ''service'' = JStr ''huggingface''"
    and k: "env_truthy (env ''HUGGINGFACE_API_KEY'')"
  from invoke_providers_first_calls [OF s, of env w req "resolve_prompt req" "uploaded_url req f"]
  show "\<exists>rest. network_calls (snd (generate env w req)) =
               \<lparr>url = huggingface_url,
                data = JObj [(''inputs'', JStr default_prompt)],
                headers =
                  [(''Authorization'', ''Bearer '' @ template (env ''HUGGINGFACE_API_KEY'')),
                   (''Content-Type'', ''application/json'')]\<rparr> # rest"
    using k by (simp add: generate_snd [OF f] huggingface_call p)
next
  assume "body_field req ''prompt'' = JStr ''''"
  then have p: "resolve_prompt req = JStr default_prompt" by (simp add: resolve_prompt_simps)
  assume f: "req_file req = Some f"
    and s: "\<not> truthy (body_field req ''service'') \<or>
            body_field req ''service'' = JStr ''huggingface''"
    and b: "fst (generateWithHuggingFace env w (JStr default_prompt)) = Inr b"
    and wr: "writeFileSync w (path_join ''generated'' (generated_filename w)) b = None"
  from b have "fst (generateWithHuggingFace env w (resolve_prompt req)) = Inr b"
    by (simp add: p)
  from generate_first_provider_succeeds [OF f s this wr]
  show "fst (generate env w req) =
              \<lparr>status = 200,
               json = JObj
                 [(''message'', JStr ''Image processing completed''),
                  (''uploadedImage'', JStr (uploaded_url req f)),
                  (''generatedImage'',
                   JStr (base_url req @ ''/generated/'' @ generated_filename w)),
                  (''prompt'', JStr default_prompt),
                  (''service'', JStr ''Hugging Face (FREE)''),
                  (''status'', JStr ''completed'')]\<rparr>"
    by (simp add: generate_completed_def p)
next
  from generate_prompt_field [of env w req] resolve_prompt_not_empty [of req]
  show "response_field (fst (generate env w req)) ''prompt'' \<noteq> JStr ''''"
    by auto
qed

text \<open>
  The theorem at an upload with an empty prompt, both credentials configured and both
  providers up: the outcome is that of the same upload with no prompt, the one network
  call is the first provider's with the default prompt as \<^verbatim>\<open>inputs\<close>, and the
  answer is status 200 with the default prompt.
\<close>

theorem empty_prompt_gets_default_witness:
  "generate env_both world_up (upload_request [(''prompt'', JStr '''')]) =
     generate env_both world_up (upload_request []) \<and>
   hd (network_calls (snd (generate env_both world_up
         (upload_request [(''prompt'', JStr '''')])))) =
     \<lparr>url = huggingface_url,
      data = JObj [(''inputs'', JStr default_prompt)],
      headers = [(''Authorization'', ''Bearer hf_key''),
                 (''Content-Type'', ''application/json'')]\<rparr> \<and>
   status (fst (generate env_both world_up (upload_request [(''prompt'', JStr '''')]))) = 200 \<and>
   response_field (fst (generate env_both world_up (upload_request [(''prompt'', JStr '''')])))
     ''prompt'' = JStr default_prompt"
proof -
  let ?req = "upload_request [(''prompt'', JStr '''')]"
  let ?req' = "upload_request []"
  have e: "body_field ?req ''prompt'' = JStr ''''"
    and same: "body_field ?req' ''prompt'' = JUndefined"
    "protocol ?req' = protocol ?req" "host ?req' = host ?req" "req_file ?req' = req_file ?req"
    "body_field ?req' ''service'' = body_field ?req ''service''"
    by (simp_all add: upload_request_def body_field_def)
  have f: "req_file ?req = Some dress"
    and s: "\<not> truthy (body_field ?req ''service'') \<or>
            body_field ?req ''service'' = JStr ''huggingface''"
    by (simp_all add: upload_request_simps)
  have k: "env_truthy (env_both ''HUGGINGFACE_API_KEY'')"
    and k': "template (env_both ''HUGGINGFACE_API_KEY'') = ''hf_key''"
    by (simp_all add: env_both_def env_truthy_def)
  have b: "fst (generateWithHuggingFace env_both world_up (JStr default_prompt)) = Inr png_bytes"
    using k by (simp add: generateWithHuggingFace_def Let_def world_up_def)
  have wr: "writeFileSync world_up (path_join ''generated'' (generated_filename world_up))
              png_bytes = None"
    by (simp add: world_up_def)
  note inst = empty_prompt_gets_default [of ?req env_both world_up dress png_bytes]
  from inst e same have one: "generate env_both world_up ?req = generate env_both world_up ?req'"
    by blast
  from inst e f s k obtain rest where "network_calls (snd (generate env_both world_up ?req)) =
       \<lparr>url = huggingface_url,
        data = JObj [(''inputs'', JStr default_prompt)],
        headers =
          [(''Authorization'', ''Bearer '' @ template (env_both ''HUGGINGFACE_API_KEY'')),
           (''Content-Type'', ''application/json'')]\<rparr> # rest"
    by blast
  then have two: "hd (network_calls (snd (generate env_both world_up ?req))) =
     \<lparr>url = huggingface_url,
      data = JObj [(''inputs'', JStr default_prompt)],
      headers = [(''Authorization'', ''Bearer hf_key''),
                 (''Content-Type'', ''application/json'')]\<rparr>"
    by (simp add: k')
  from inst e f s b wr have three: "fst (generate env_both world_up ?req) =
              \<lparr>status = 200,
               json = JObj
                 [(''message'', JStr ''Image processing completed''),
                  (''uploadedImage'', JStr (uploaded_url ?req dress)),
                  (''generatedImage'',
                   JStr (base_url ?req @ ''/generated/'' @ generated_filename world_up)),
                  (''prompt'', JStr default_prompt),
                  (''service'', JStr ''Hugging Face (FREE)''),
                  (''status'', JStr ''completed'')]\<rparr>"
    by blast
  have "status (fst (generate env_both world_up ?req)) = 200"
    and "response_field (fst (generate env_both world_up ?req)) ''prompt'' = JStr default_prompt"
    unfolding three by (simp_all add: response_field_def)
  with one two show ?thesis by simp
qed

section \<open>A service other than \<^verbatim>\<open>huggingface\<close>\<close>

text \<open>
  Claim C2 asks that a request naming \<^verbatim>\<open>replicate\<close> be served by the second
  provider. The handler's provider block runs only when \<^verbatim>\<open>service\<close> is falsy or
  \<^verbatim>\<open>'huggingface'\<close> and has no other branch: for \<^verbatim>\<open>service = 'replicate'\<close>
  no provider is called, nothing is written, and the answer is the success body with
  \<^verbatim>\<open>generatedImage\<close> and \<^verbatim>\<open>service\<close> left \<^verbatim>\<open>undefined\<close>.
\<close>

theorem explicit_replicate_invokes_nothing:
  "req_file req = Some f \<Longrightarrow> body_field req ''service'' = JStr ''replicate'' \<Longrightarrow>
   generate env w req =
     (generate_completed (uploaded_url req f) JUndefined (resolve_prompt req) JUndefined, [])"
  by (simp add: generate_def invoke_providers_skipped)

text \<open>
  At a request naming \<^verbatim>\<open>replicate\<close> with both credentials configured and both
  providers up: no network call, no service in the answer, status "completed".
\<close>

theorem explicit_replicate_invokes_nothing_witness:
  "env_truthy (env_both ''REPLICATE_API_TOKEN'') \<and>
   network_calls (snd (generate env_both world_up
      (upload_request [(''service'', JStr ''replicate'')]))) = [] \<and>
   response_field (fst (generate env_both world_up
      (upload_request [(''service'', JStr ''replicate'')]))) ''service'' = JUndefined \<and>
   response_field (fst (generate env_both world_up
      (upload_request [(''service'', JStr ''replicate'')]))) ''status'' = JStr ''completed''"
proof -
  let ?req = "upload_request [(''service'', JStr ''replicate'')]"
  have f: "req_file ?req = Some dress" and s: "body_field ?req ''service'' = JStr ''replicate''"
    by (simp_all add: upload_request_simps)
  have t: "env_truthy (env_both ''REPLICATE_API_TOKEN'')"
    by (simp add: env_both_def env_truthy_def)
  show ?thesis
    unfolding explicit_replicate_invokes_nothing [OF f s]
    using t by (simp add: generate_completed_def response_field_def)
qed

text \<open>
  Claim C3 asks that every "completed" answer carry a non-empty
  \<^verbatim>\<open>generatedImage\<close>. For every request with an upload whose
  \<^verbatim>\<open>service\<close> is truthy and not \<^verbatim>\<open>'huggingface'\<close> the answer is status 200
  with \<^verbatim>\<open>status: 'completed'\<close>, \<^verbatim>\<open>generatedImage\<close> is
  \<^verbatim>\<open>undefined\<close> and no file was written.
\<close>

theorem completed_without_output_location:
  "req_file req = Some f \<Longrightarrow> truthy (body_field req ''service'') \<Longrightarrow>
   body_field req ''service'' \<noteq> JStr ''huggingface'' \<Longrightarrow>
   status (fst (generate env w req)) = 200 \<and>
   response_field (fst (generate env w req)) ''status'' = JStr ''completed'' \<and>
   response_field (fst (generate env w req)) ''generatedImage'' = JUndefined \<and>
   written_files (snd (generate env w req)) = []"
  by (simp add: generate_def invoke_providers_skipped generate_completed_def response_field_def)

text \<open>The same at the request naming \<^verbatim>\<open>replicate\<close>.\<close>

theorem completed_without_output_location_witness:
  "status (fst (generate env_both world_up
      (upload_request [(''service'', JStr ''replicate'')]))) = 200 \<and>
   response_field (fst (generate env_both world_up
      (upload_request [(''service'', JStr ''replicate'')]))) ''status'' = JStr ''completed'' \<and>
   response_field (fst (generate env_both world_up
      (upload_request [(''service'', JStr ''replicate'')]))) ''generatedImage'' = JUndefined \<and>
   written_files (snd (generate env_both world_up
      (upload_request [(''service'', JStr ''replicate'')]))) = []"
proof -
  let ?req = "upload_request [(''service'', JStr ''replicate'')]"
  have "req_file ?req = Some dress" "truthy (body_field ?req ''service'')"
    "body_field ?req ''service'' \<noteq> JStr ''huggingface''"
    by (simp_all add: upload_request_simps)
  then show ?thesis by (rule completed_without_output_location)
qed

text \<open>
  When the provider block does run, a "completed" answer has its location: either the
  first provider's image was written under the generated name and
  \<^verbatim>\<open>generatedImage\<close> is its non-empty URL, or \<^verbatim>\<open>generatedImage\<close> is what
  \<^verbatim>\<open>result.urls?.get || result.id\<close> reads from the descriptor the second
  provider's client returned.
\<close>

lemma generate_and_save_location:
  "fst (generate_and_save env w req p) = Inr location \<Longrightarrow>
   location = base_url req @ ''/generated/'' @ generated_filename w \<and>
   path_join ''generated'' (generated_filename w) \<in>
     set (written_files (snd (generate_and_save env w req p)))"
proof (cases "fst (generateWithHuggingFace env w p)")
  case (Inl e)
  assume "fst (generate_and_save env w req p) = Inr location"
  with Inl show ?thesis by (simp add: generate_and_save_Inl)
next
  case (Inr b)
  assume "fst (generate_and_save env w req p) = Inr location"
  with Inr show ?thesis
    by (cases "writeFileSync w (path_join ''generated'' (generated_filename w)) b")
      (auto simp add: generate_and_save_Inr save_generated_def Let_def written_files_append)
qed

lemma fallback_location:
  "fst (fallback_to_replicate env w p u) = Inr (g, sv) \<Longrightarrow>
   \<exists>d. fst (generateWithReplicate env w p (JStr u)) = Inr d \<and> replicate_location d = Inr g"
  by (auto simp add: fallback_to_replicate_def split: if_splits prod.splits sum.splits)

lemma invoke_providers_location:
  assumes s: "\<not> truthy service \<or> service = JStr ''huggingface''"
    and r: "fst (invoke_providers env w req service p u) = Inr (g, sv)"
  shows "(\<exists>location. fst (generate_and_save env w req p) = Inr location \<and> g = JStr location) \<or>
         (\<exists>d. fst (generateWithReplicate env w p (JStr u)) = Inr d \<and>
              replicate_location d = Inr g)"
proof (cases "generate_and_save env w req p")
  case (Pair a tr)
  show ?thesis
  proof (cases a)
    case (Inr location)
    with Pair s r show ?thesis by (simp add: invoke_providers_def)
  next
    case (Inl e)
    with Pair s r have "fst (fallback_to_replicate env w p u) = Inr (g, sv)"
      by (simp add: invoke_providers_def split: prod.splits)
    then show ?thesis using fallback_location by blast
  qed
qed

lemma completed_location_when_block_runs:
  assumes f: "req_file req = Some f"
    and s: "\<not> truthy (body_field req ''service'') \<or> body_field req ''service'' = JStr ''huggingface''"
    and ok: "status (fst (generate env w req)) = 200"
  shows "(\<exists>location. location \<noteq> [] \<and>
            response_field (fst (generate env w req)) ''generatedImage'' = JStr location \<and>
            path_join ''generated'' (generated_filename w) \<in>
              set (written_files (snd (generate env w req)))) \<or>
         (\<exists>d. fst (generateWithReplicate env w (resolve_prompt req)
                  (JStr (uploaded_url req f))) = Inr d \<and>
              replicate_location d =
                Inr (response_field (fst (generate env w req)) ''generatedImage''))"
proof (cases "invoke_providers env w req (body_field req ''service'') (resolve_prompt req)
                (uploaded_url req f)")
  case (Pair a tr)
  show ?thesis
  proof (cases a)
    case (Inl e)
    with Pair ok show ?thesis by (simp add: generate_fst [OF f] generate_failed_def)
  next
    case (Inr gs)
    obtain g sv where gs: "gs = (g, sv)" by (cases gs)
    with Pair Inr have img: "response_field (fst (generate env w req)) ''generatedImage'' = g"
      by (simp add: generate_fst [OF f] generate_completed_def response_field_def)
    from Pair Inr gs have "fst (invoke_providers env w req (body_field req ''service'')
        (resolve_prompt req) (uploaded_url req f)) = Inr (g, sv)" by simp
    from invoke_providers_location [OF s this] show ?thesis
    proof
      assume "\<exists>location. fst (generate_and_save env w req (resolve_prompt req)) = Inr location \<and>
                g = JStr location"
      then obtain location
        where l: "fst (generate_and_save env w req (resolve_prompt req)) = Inr location"
          and g: "g = JStr location" by blast
      from generate_and_save_location [OF l]
      have "location \<noteq> []"
        and "path_join ''generated'' (generated_filename w) \<in>
               set (written_files (snd (generate_and_save env w req (resolve_prompt req))))"
        by simp_all
      moreover from l s Pair have "tr = snd (generate_and_save env w req (resolve_prompt req))"
        by (cases "generate_and_save env w req (resolve_prompt req)")
          (simp add: invoke_providers_def)
      ultimately show ?thesis using img g Pair by (simp add: generate_snd [OF f])
    next
      assume "\<exists>d. fst (generateWithReplicate env w (resolve_prompt req)
                  (JStr (uploaded_url req f))) = Inr d \<and> replicate_location d = Inr g"
      with img show ?thesis by simp
    qed
  qed
qed

section \<open>No credential configured\<close>

lemma generate_network_calls_unconfigured:
  assumes "\<not> env_truthy (env ''HUGGINGFACE_API_KEY'')"
    and "\<not> env_truthy (env ''REPLICATE_API_TOKEN'')"
  shows "network_calls (snd (generate env w req)) = []"
  using assms
  by (cases "req_file req")
    (simp_all add: generate_no_file generate_snd invoke_providers_def generate_and_save_def
      hf_unconfigured fallback_without_token)

text \<open>
  Claim C8 asks that, with neither credential configured, every request to
  \<^verbatim>\<open>POST /generate\<close> fail with a configuration error and make no network call.
  With an upload and neither credential: no network call is made; when
  \<^verbatim>\<open>service\<close> is falsy or \<^verbatim>\<open>'huggingface'\<close> the answer is the 500 body with
  the details "No AI service configured properly" and the setup text of both providers;
  when \<^verbatim>\<open>service\<close> is anything else the answer is status 200, "completed", with
  no error.
\<close>

theorem unconfigured_generate:
  assumes f: "req_file req = Some f"
    and a: "\<not> env_truthy (env ''HUGGINGFACE_API_KEY'')"
    and b: "\<not> env_truthy (env ''REPLICATE_API_TOKEN'')"
  shows "network_calls (snd (generate env w req)) = [] \<and>
         (\<not> truthy (body_field req ''service'') \<or>
          body_field req ''service'' = JStr ''huggingface'' \<longrightarrow>
            fst (generate env w req) =
              generate_failed (Error ''No AI service configured properly'')) \<and>
         (truthy (body_field req ''service'') \<and>
          body_field req ''service'' \<noteq> JStr ''huggingface'' \<longrightarrow>
            status (fst (generate env w req)) = 200 \<and>
            response_field (fst (generate env w req)) ''status'' = JStr ''completed'' \<and>
            response_field (fst (generate env w req)) ''error'' = JUndefined)"
proof (intro conjI impI)
  show "network_calls (snd (generate env w req)) = []"
    using a b by (rule generate_network_calls_unconfigured)
next
  assume s: "\<not> truthy (body_field req ''service'') \<or>
             body_field req ''service'' = JStr ''huggingface''"
  from a have "fst (generateWithHuggingFace env w (resolve_prompt req)) =
     Inl (Error (''Hugging Face API key not configured. '' @
                  ''Get free key at https://huggingface.co/settings/tokens''))"
    by (simp add: hf_unconfigured)
  from generate_after_hf_failure(1) [OF f s this] b
  show "fst (generate env w req) = generate_failed (Error ''No AI service configured properly'')"
    by (simp add: fallback_without_token)
next
  assume s: "truthy (body_field req ''service'') \<and>
             body_field req ''service'' \<noteq> JStr ''huggingface''"
  with f have g: "generate env w req =
     (generate_completed (uploaded_url req f) JUndefined (resolve_prompt req) JUndefined, [])"
    by (simp add: generate_def invoke_providers_skipped)
  show "status (fst (generate env w req)) = 200"
    and "response_field (fst (generate env w req)) ''status'' = JStr ''completed''"
    and "response_field (fst (generate env w req)) ''error'' = JUndefined"
    unfolding g by (simp_all add: generate_completed_def response_field_def)
qed

text \<open>At the request naming \<^verbatim>\<open>replicate\<close> with an empty environment.\<close>

theorem unconfigured_generate_witness:
  "status (fst (generate env_none world_up
      (upload_request [(''service'', JStr ''replicate'')]))) = 200 \<and>
   response_field (fst (generate env_none world_up
      (upload_request [(''service'', JStr ''replicate'')]))) ''status'' = JStr ''completed'' \<and>
   network_calls (snd (generate env_none world_up
      (upload_request [(''service'', JStr ''replicate'')]))) = []"
proof -
  let ?req = "upload_request [(''service'', JStr ''replicate'')]"
  have f: "req_file ?req = Some dress"
    and s: "truthy (body_field ?req ''service'') \<and>
            body_field ?req ''service'' \<noteq> JStr ''huggingface''"
    by (simp_all add: upload_request_simps)
  have a: "\<not> env_truthy (env_none ''HUGGINGFACE_API_KEY'')"
    and b: "\<not> env_truthy (env_none ''REPLICATE_API_TOKEN'')"
    by (simp_all add: env_none_def env_truthy_def)
  from unconfigured_generate [OF f a b, of world_up] s show ?thesis by blast
qed

section \<open>Names of generated files\<close>

text \<open>Decimal printing is injective: different clock readings print differently.\<close>

lemma digit_cases:
  "a < 10 \<Longrightarrow>
   a = 0 \<or> a = 1 \<or> a = 2 \<or> a = 3 \<or> a = 4 \<or> a = 5 \<or> a = 6 \<or> a = 7 \<or> a = 8 \<or> a = (9::nat)"
  by arith

lemma digit_char_inj: "a < 10 \<Longrightarrow> b < 10 \<Longrightarrow> digit_char a = digit_char b \<Longrightarrow> a = b"
  using digit_cases [of a] digit_cases [of b] by (auto simp add: digit_char_def)

lemma decimal_small: "n < 10 \<Longrightarrow> decimal n = [digit_char n]"
  by (subst decimal.simps) simp

lemma decimal_large: "\<not> n < 10 \<Longrightarrow> decimal n = decimal (n div 10) @ [digit_char (n mod 10)]"
  by (subst decimal.simps) simp

lemma decimal_nonempty: "decimal n \<noteq> []"
  by (cases "n < 10") (simp_all add: decimal_small decimal_large)

lemma decimal_inj: "decimal m = decimal n \<Longrightarrow> m = n"
proof (induction m arbitrary: n rule: decimal.induct)
  case (1 m)
  show ?case
  proof (cases "m < 10")
    case True
    show ?thesis
    proof (cases "n < 10")
      case nt: True
      with True "1.prems" have "digit_char m = digit_char n" by (simp add: decimal_small)
      with True nt show ?thesis by (rule digit_char_inj)
    next
      case nf: False
      with True "1.prems" have "decimal (n div 10) = []"
        by (simp add: decimal_small decimal_large)
      with decimal_nonempty show ?thesis by blast
    qed
  next
    case False
    show ?thesis
    proof (cases "n < 10")
      case nt: True
      with False "1.prems" have "decimal (m div 10) = []"
        by (simp add: decimal_small decimal_large)
      with decimal_nonempty show ?thesis by blast
    next
      case nf: False
      with False "1.prems" have q: "decimal (m div 10) = decimal (n div 10)"
        and r: "digit_char (m mod 10) = digit_char (n mod 10)"
        by (simp_all add: decimal_large)
      from "1.IH" [OF False q] have "m div 10 = n div 10" .
      moreover from r have "m mod 10 = n mod 10" by (intro digit_char_inj) simp_all
      ultimately show ?thesis by (metis div_mult_mod_eq)
    qed
  qed
qed

lemma generated_filename_eq_iff:
  "(generated_filename w1 = generated_filename w2) = (now w1 = now w2)"
  by (auto simp add: generated_filename_def dest: decimal_inj)

lemma generated_path_eq_iff:
  "(path_join ''generated'' (generated_filename w1) = path_join ''generated'' (generated_filename w2)) =
   (now w1 = now w2)"
  by (simp add: path_join_def generated_filename_eq_iff)

lemma written_files_hf: "written_files (snd (generateWithHuggingFace env w p)) = []"
  by (simp add: generateWithHuggingFace_def Let_def)

lemma written_files_replicate: "written_files (snd (generateWithReplicate env w p u)) = []"
  by (simp add: generateWithReplicate_def Let_def)

lemma written_files_save:
  "written_files (snd (save_generated w req b)) = [path_join ''generated'' (generated_filename w)]"
  by (simp add: save_generated_def Let_def split: option.splits)

lemma written_files_generate_and_save:
  "set (written_files (snd (generate_and_save env w req p))) \<subseteq>
     {path_join ''generated'' (generated_filename w)}"
proof (cases "fst (generateWithHuggingFace env w p)")
  case (Inl e)
  then show ?thesis by (simp add: generate_and_save_Inl written_files_hf)
next
  case (Inr b)
  then show ?thesis
    by (simp add: generate_and_save_Inr written_files_append written_files_hf written_files_save)
qed

lemma written_files_fallback: "written_files (snd (fallback_to_replicate env w p u)) = []"
  by (cases "env_truthy (env ''REPLICATE_API_TOKEN'')")
    (simp_all add: fallback_snd fallback_without_token written_files_replicate)

lemma written_files_generate_simple:
  "set (written_files (snd (generate_simple env w req))) \<subseteq>
     {path_join ''generated'' (generated_filename w)}"
proof (cases "generate_and_save env w req (body_field req ''prompt'')")
  case (Pair r tr)
  with written_files_generate_and_save [of env w req "body_field req ''prompt''"]
  have "set (written_files tr) \<subseteq> {path_join ''generated'' (generated_filename w)}" by simp
  with Pair show ?thesis by (cases r) (simp_all add: generate_simple_def Let_def)
qed

lemma written_files_invoke_providers:
  "set (written_files (snd (invoke_providers env w req s p u))) \<subseteq>
     {path_join ''generated'' (generated_filename w)}"
proof (cases "generate_and_save env w req p")
  case (Pair r tr)
  with written_files_generate_and_save [of env w req p]
  have tr: "set (written_files tr) \<subseteq> {path_join ''generated'' (generated_filename w)}" by simp
  show ?thesis
  proof (cases r)
    case (Inl e)
    with Pair tr written_files_fallback [of env w p u] show ?thesis
      by (cases "fallback_to_replicate env w p u")
        (simp add: invoke_providers_def written_files_append)
  next
    case (Inr b)
    with Pair tr show ?thesis by (simp add: invoke_providers_def)
  qed
qed

lemma written_files_generate:
  "set (written_files (snd (generate env w req))) \<subseteq>
     {path_join ''generated'' (generated_filename w)}"
  by (cases "req_file req")
    (simp_all add: generate_no_file generate_snd written_files_invoke_providers)

lemma written_files_app_post:
  "p \<in> set (written_files (snd (app_post r env w req))) \<Longrightarrow>
   p = path_join ''generated'' (generated_filename w)"
  using written_files_generate_simple [of env w req] written_files_generate [of env w req]
  by (cases r) auto

text \<open>
  Claim C7, as amended. Every file a generation handler writes is named
  \<^verbatim>\<open>generated/generated-<Date.now()>.png\<close>, with no random part: the files of
  two calls (to either route, for any requests and environments) have the same name
  exactly when the two clock readings are equal. Names are distinct across calls at
  different milliseconds and coincide within one millisecond.
\<close>

theorem generated_name_follows_clock:
  assumes "p1 \<in> set (written_files (snd (app_post r1 env1 w1 req1)))"
    and "p2 \<in> set (written_files (snd (app_post r2 env2 w2 req2)))"
  shows "p1 = ''generated/generated-'' @ decimal (now w1) @ ''.png'' \<and>
         p2 = ''generated/generated-'' @ decimal (now w2) @ ''.png'' \<and>
         (p1 = p2) = (now w1 = now w2)"
proof -
  from assms(1) have a: "p1 = path_join ''generated'' (generated_filename w1)"
    by (rule written_files_app_post)
  from assms(2) have b: "p2 = path_join ''generated'' (generated_filename w2)"
    by (rule written_files_app_post)
  from a b generated_path_eq_iff [of w1 w2] show ?thesis
    by (simp add: path_join_def generated_filename_def)
qed

lemma example_names:
  "generated_filename world_up = ''generated-1700000000000.png''"
  "generated_filename world_later = ''generated-1700000000001.png''"
  by (simp_all add: generated_filename_def world_up_def world_later_def decimal.simps
      digit_char_def)

lemma example_simple_run:
  "huggingface_api w = (\<lambda>rq. Inr png_bytes) \<Longrightarrow> writeFileSync w = (\<lambda>p b. None) \<Longrightarrow>
   status (fst (generate_simple env_both w (json_request [(''prompt'', JStr (c # cs))]))) = 200 \<and>
   response_field (fst (generate_simple env_both w (json_request [(''prompt'', JStr (c # cs))])))
     ''generatedImage'' = JStr (''http://localhost:3000/generated/'' @ generated_filename w) \<and>
   written_files (snd (generate_simple env_both w (json_request [(''prompt'', JStr (c # cs))]))) =
     [''generated/'' @ generated_filename w]"
  by (simp add: generate_simple_def generate_and_save_def save_generated_def
      generateWithHuggingFace_def Let_def env_both_def env_truthy_def json_request_def
      body_field_def base_url_def path_join_def response_field_def)

lemma example_generate_run:
  "huggingface_api w = (\<lambda>rq. Inr png_bytes) \<Longrightarrow> writeFileSync w = (\<lambda>p b. None) \<Longrightarrow>
   status (fst (generate env_both w (upload_request []))) = 200 \<and>
   written_files (snd (generate env_both w (upload_request []))) =
     [''generated/'' @ generated_filename w]"
  by (simp add: generate_def invoke_providers_def generate_and_save_def save_generated_def
      generateWithHuggingFace_def Let_def env_both_def env_truthy_def upload_request_def
      body_field_def base_url_def path_join_def generate_completed_def)

text \<open>
  The theorem at a call to each route one millisecond apart: the two files differ.
\<close>

theorem generated_name_follows_clock_witness:
  "hd (written_files (snd (app_post PostGenerateSimple env_both world_up
         (json_request [(''prompt'', JStr ''red sneaker'')])))) \<noteq>
   hd (written_files (snd (app_post PostGenerate env_both world_later (upload_request []))))"
proof -
  let ?a = "written_files (snd (app_post PostGenerateSimple env_both world_up
         (json_request [(''prompt'', JStr ''red sneaker'')])))"
  let ?b = "written_files (snd (app_post PostGenerate env_both world_later (upload_request [])))"
  have a: "?a = [''generated/generated-1700000000000.png'']"
    using example_simple_run [of world_up "CHR ''r''" "''ed sneaker''"]
    by (simp add: world_up_def example_names [unfolded world_up_def])
  have b: "?b = [''generated/generated-1700000000001.png'']"
    using example_generate_run [of world_later]
    by (simp add: world_later_def example_names [unfolded world_later_def])
  have "hd ?a \<in> set ?a" and "hd ?b \<in> set ?b" unfolding a b by simp_all
  from generated_name_follows_clock [OF this]
  have "(hd ?a = hd ?b) = (now world_up = now world_later)" by blast
  then show ?thesis by (simp add: world_up_def world_later_def)
qed

text \<open>
  Claim C7 as stated fails: two successful calls to \<^verbatim>\<open>POST /generate-simple\<close>
  with different prompts at the same clock reading write the same file and return the
  same URL.
\<close>

theorem same_millisecond_same_filename:
  "json_request [(''prompt'', JStr ''red sneaker'')] \<noteq>
     json_request [(''prompt'', JStr ''blue sneaker'')] \<and>
   status (fst (generate_simple env_both world_up
      (json_request [(''prompt'', JStr ''red sneaker'')]))) = 200 \<and>
   status (fst (generate_simple env_both world_up
      (json_request [(''prompt'', JStr ''blue sneaker'')]))) = 200 \<and>
   written_files (snd (generate_simple env_both world_up
      (json_request [(''prompt'', JStr ''red sneaker'')]))) =
     [''generated/generated-1700000000000.png''] \<and>
   written_files (snd (generate_simple env_both world_up
      (json_request [(''prompt'', JStr ''blue sneaker'')]))) =
     [''generated/generated-1700000000000.png''] \<and>
   response_field (fst (generate_simple env_both world_up
      (json_request [(''prompt'', JStr ''red sneaker'')]))) ''generatedImage'' =
   response_field (fst (generate_simple env_both world_up
      (json_request [(''prompt'', JStr ''blue sneaker'')]))) ''generatedImage''"
proof -
  have d: "json_request [(''prompt'', JStr ''red sneaker'')] \<noteq>
           json_request [(''prompt'', JStr ''blue sneaker'')]"
    by (simp add: json_request_def)
  have w: "huggingface_api world_up = (\<lambda>rq. Inr png_bytes)"
    "writeFileSync world_up = (\<lambda>p b. None)"
    by (simp_all add: world_up_def)
  from example_simple_run [OF w, of "CHR ''r''" "''ed sneaker''"]
    example_simple_run [OF w, of "CHR ''b''" "''lue sneaker''"] d
  show ?thesis by (simp add: example_names)
qed

section \<open>The upload filter and the extension\<close>






end
